theory Spec2Isabelle
  imports Main "HOL-Library.Sublist"
begin

section \<open>Errors\<close>

text \<open>
  Go \<^verbatim>\<open>error\<close> values as the command package builds them.  \<open>New s\<close> is an error
  with message \<open>s\<close> (\<^verbatim>\<open>errors.New\<close>, \<^verbatim>\<open>fmt.Errorf\<close> without \<^verbatim>\<open>%w\<close>, and
  every error that an API call or a library hands back); \<open>Wrapf p e\<close> is
  \<^verbatim>\<open>fmt.Errorf(p + "%w", e)\<close>; \<open>Canceled\<close> is \<^verbatim>\<open>context.Canceled\<close>;
  \<open>ExitError c m\<close> is an \<^verbatim>\<open>*exec.ExitError\<close> with exit code \<open>c\<close> and message
  \<open>m\<close>.  \<open>ErrAskUserSkipped\<close> is the package variable of \<^verbatim>\<open>cmd/run.go\<close>.
\<close>

datatype error =
    ErrAskUserSkipped
  | New string
  | Wrapf string error
  | Canceled
  | ExitError int string

fun Error_string :: "error \<Rightarrow> string" where
  "Error_string ErrAskUserSkipped = ''ASK_USER task started, awaiting user response''"
| "Error_string (New s) = s"
| "Error_string (Wrapf p e) = p @ Error_string e"
| "Error_string Canceled = ''context canceled''"
| "Error_string (ExitError c m) = m"

text \<open>\<^verbatim>\<open>errors.Is(err, ErrAskUserSkipped)\<close>: walks the chain of wrapped errors.\<close>

fun Is_ErrAskUserSkipped :: "error \<Rightarrow> bool" where
  "Is_ErrAskUserSkipped ErrAskUserSkipped = True"
| "Is_ErrAskUserSkipped (Wrapf p e) = Is_ErrAskUserSkipped e"
| "Is_ErrAskUserSkipped _ = False"

section \<open>Execution backends (\<^verbatim>\<open>internal/executor\<close>)\<close>

subsection \<open>The capped writer\<close>

definition maxOutputBytes :: int where
  "maxOutputBytes = 2 ^ 20"

record limitedWriter =
  buf :: string
  limit :: int

text \<open>
  \<^verbatim>\<open>(*limitedWriter).Write\<close>: returns the writer after the call, the byte count and the
  error.  \<^verbatim>\<open>bytes.Buffer.Write\<close> appends all of its argument and returns its length
  and a nil error.
\<close>

definition Write :: "limitedWriter \<Rightarrow> string \<Rightarrow> limitedWriter \<times> int \<times> error option" where
  "Write w p =
     (let remaining = limit w - int (length (buf w)) in
      if remaining \<le> 0 then (w, int (length p), None)
      else
        let p' = (if int (length p) > remaining then take (nat remaining) p else p)
        in (w\<lparr>buf := buf w @ p'\<rparr>, int (length p'), None))"

text \<open>
  The calls of \<open>Write\<close> that one execution makes, in order, on the chunks that reach
  the writer; the results of the calls are collected.
\<close>

fun WriteAll :: "limitedWriter \<Rightarrow> string list \<Rightarrow> limitedWriter \<times> (int \<times> error option) list" where
  "WriteAll w [] = (w, [])"
| "WriteAll w (p # ps) =
     (case Write w p of (w', r) \<Rightarrow>
        (case WriteAll w' ps of (w'', rs) \<Rightarrow> (w'', r # rs)))"

definition newLimitedWriter :: "int \<Rightarrow> limitedWriter" where
  "newLimitedWriter l = \<lparr>buf = [], limit = l\<rparr>"

text \<open>
  The writer is installed as \<^verbatim>\<open>cmd.Stdout\<close> or \<^verbatim>\<open>cmd.Stderr\<close>, so the calls of \<open>Write\<close>
  are made by the loop of \<^verbatim>\<open>io.Copy\<close> of the Go library, which \<^verbatim>\<open>os/exec\<close> runs between
  the pipe of the subprocess and the writer.  This is that loop, on the chunks read
  from the pipe: it ends with the error of a call, with \<^verbatim>\<open>io.ErrShortWrite\<close> when a
  call returns a nil error and a count other than the length of its chunk, and with
  nil when the chunks are used up.
\<close>

definition ErrShortWrite :: error where
  "ErrShortWrite = New ''short write''"

definition errInvalidWrite :: error where
  "errInvalidWrite = New ''invalid write result''"

fun io_Copy :: "limitedWriter \<Rightarrow> string list \<Rightarrow> limitedWriter \<times> error option" where
  "io_Copy w [] = (w, None)"
| "io_Copy w (p # ps) =
     (case Write w p of
        (w', nw, ew) \<Rightarrow>
          let nr = int (length p);
              ew = (if (nw < 0 \<or> nr < nw) \<and> ew = None then Some errInvalidWrite else ew)
          in if ew \<noteq> None then (w', ew)
             else if nr \<noteq> nw then (w', Some ErrShortWrite)
             else io_Copy w' ps)"

subsection \<open>JSON values and Go maps\<close>

text \<open>
  A value of type \<^verbatim>\<open>interface{}\<close> that came out of a JSON document.  A number is
  kept as its lexeme and a string in its escaped source form (Go stores a
  \<^verbatim>\<open>float64\<close> and the unescaped text).  An object lists its members in the order
  in which their keys first occur; a Go map has no order.
\<close>

datatype json =
    JNull
  | JBool bool
  | JNumber string
  | JString string
  | JArray "json list"
  | JObject "(string \<times> json) list"

text \<open>A \<^verbatim>\<open>map[string]interface{}\<close>; \<open>None\<close> is the nil map.\<close>

type_synonym go_map = "(string \<times> json) list option"

fun len_map :: "go_map \<Rightarrow> nat" where
  "len_map None = 0"
| "len_map (Some kvs) = length kvs"

subsection \<open>Entities (\<^verbatim>\<open>internal/api/models.go\<close>)\<close>

type_synonym ExecutionMode = string

definition ExecutionModeLLMReasoning :: ExecutionMode where
  "ExecutionModeLLMReasoning = ''LLM_REASONING''"

definition ExecutionModePythonSandbox :: ExecutionMode where
  "ExecutionModePythonSandbox = ''PYTHON_SANDBOX''"

definition ExecutionModeHybrid :: ExecutionMode where
  "ExecutionModeHybrid = ''HYBRID''"

definition ExecutionModeBash :: ExecutionMode where
  "ExecutionModeBash = ''BASH''"

definition ExecutionModePython :: ExecutionMode where
  "ExecutionModePython = ''PYTHON''"

definition ExecutionModeAskUser :: ExecutionMode where
  "ExecutionModeAskUser = ''ASK_USER''"

text \<open>
  The fields of \<^verbatim>\<open>PlanningEntity\<close> that the lifecycle and the shell and script
  backends read.  \<open>Code\<close> is a \<^verbatim>\<open>*string\<close>: \<open>None\<close> is nil.
\<close>

record PlanningEntity =
  ID :: string
  Type :: string
  Title :: string
  ExecutionMode :: ExecutionMode
  InputSchema :: go_map
  OutputSchema :: go_map
  Code :: "string option"

subsection \<open>Results and subprocesses\<close>

record ExecutionResult =
  Success :: bool
  Stdout :: string
  Stderr :: string
  ExitCode :: int
  Error :: "error option"

text \<open>
  What one subprocess did, as the backend sees it: the chunks that reached the writer
  installed as \<^verbatim>\<open>cmd.Stdout\<close> and the one installed as \<^verbatim>\<open>cmd.Stderr\<close>, the value
  returned by \<^verbatim>\<open>cmd.Run()\<close> (\<open>None\<close> is nil), and whether
  \<^verbatim>\<open>execCtx.Err() == context.DeadlineExceeded\<close> held when it was tested.
\<close>

record proc_obs =
  stdout_writes :: "string list"
  stderr_writes :: "string list"
  run_err :: "error option"
  deadline_exceeded :: bool

text \<open>
  The type assertion \<^verbatim>\<open>err.(*exec.ExitError)\<close> followed by \<^verbatim>\<open>ExitCode()\<close>, with the
  \<^verbatim>\<open>else\<close> branch \<^verbatim>\<open>exitCode = 1\<close>.
\<close>

fun exitCode_of :: "error \<Rightarrow> int" where
  "exitCode_of (ExitError c m) = c"
| "exitCode_of _ = 1"

text \<open>\<^verbatim>\<open>fmt.Errorf("execution timed out after %v", DefaultExecTimeout)\<close>, ten minutes.\<close>

definition timeout_error :: error where
  "timeout_error = New ''execution timed out after 10m0s''"

definition capture :: "string list \<Rightarrow> string" where
  "capture ws = buf (fst (WriteAll (newLimitedWriter maxOutputBytes) ws))"

definition ExecuteBashWithContext :: "PlanningEntity \<Rightarrow> proc_obs \<Rightarrow> ExecutionResult" where
  "ExecuteBashWithContext entity obs =
     (if Code entity = None \<or> Code entity = Some [] then
        \<lparr>Success = False, Stdout = [], Stderr = [], ExitCode = 1,
         Error = Some (New ''no code provided for BASH execution'')\<rparr>
      else
        let stdout = capture (stdout_writes obs);
            stderr = capture (stderr_writes obs);
            err = run_err obs
        in if err \<noteq> None \<and> deadline_exceeded obs then
             \<lparr>Success = False, Stdout = stdout, Stderr = stderr, ExitCode = 124,
              Error = Some timeout_error\<rparr>
           else
             let exitCode = (case err of None \<Rightarrow> 0 | Some e \<Rightarrow> exitCode_of e)
             in \<lparr>Success = (exitCode = 0), Stdout = stdout, Stderr = stderr,
                 ExitCode = exitCode, Error = err\<rparr>)"

definition ExecutePythonWithContext :: "PlanningEntity \<Rightarrow> proc_obs \<Rightarrow> ExecutionResult" where
  "ExecutePythonWithContext entity obs =
     (if Code entity = None \<or> Code entity = Some [] then
        \<lparr>Success = False, Stdout = [], Stderr = [], ExitCode = 1,
         Error = Some (New ''no code provided for PYTHON execution'')\<rparr>
      else
        let stdout = capture (stdout_writes obs);
            stderr = capture (stderr_writes obs);
            err = run_err obs
        in if err \<noteq> None \<and> deadline_exceeded obs then
             \<lparr>Success = False, Stdout = stdout, Stderr = stderr, ExitCode = 124,
              Error = Some timeout_error\<rparr>
           else
             let exitCode = (case err of None \<Rightarrow> 0 | Some e \<Rightarrow> exitCode_of e)
             in \<lparr>Success = (exitCode = 0), Stdout = stdout, Stderr = stderr,
                 ExitCode = exitCode, Error = err\<rparr>)"

text \<open>
  \<^verbatim>\<open>ExecuteLLM\<close> writes into plain \<^verbatim>\<open>bytes.Buffer\<close>s, with no cap and no deadline; it
  never reads \<^verbatim>\<open>entity.Code\<close> to decide whether to run.
\<close>

definition ExecuteLLM :: "PlanningEntity \<Rightarrow> proc_obs \<Rightarrow> ExecutionResult" where
  "ExecuteLLM entity obs =
     (let stdout = concat (stdout_writes obs);
          stderr = concat (stderr_writes obs);
          exitCode = (case run_err obs of None \<Rightarrow> 0 | Some err \<Rightarrow> exitCode_of err)
      in \<lparr>Success = (exitCode = 0), Stdout = stdout, Stderr = stderr,
          ExitCode = exitCode, Error = run_err obs\<rparr>)"

definition ExecuteBash :: "PlanningEntity \<Rightarrow> proc_obs \<Rightarrow> ExecutionResult" where
  "ExecuteBash entity obs = ExecuteBashWithContext entity obs"

definition ExecutePython :: "PlanningEntity \<Rightarrow> proc_obs \<Rightarrow> ExecutionResult" where
  "ExecutePython entity obs = ExecutePythonWithContext entity obs"

section \<open>Output extraction (\<^verbatim>\<open>internal/validator/schema.go\<close>)\<close>

subsection \<open>The string functions of the Go library that the extractor calls\<close>

text \<open>
  The UTF-8 encodings of the code points for which \<^verbatim>\<open>unicode.IsSpace\<close> holds: tab to
  carriage return, space, U+0085, U+00A0, U+1680, U+2000 to U+200A, U+2028, U+2029,
  U+202F, U+205F and U+3000.
\<close>

definition space_runes :: "string list" where
  "space_runes =
     [[CHR 0x09], [CHR 0x0A], [CHR 0x0B], [CHR 0x0C], [CHR 0x0D], [CHR 0x20],
      [CHR 0xC2, CHR 0x85], [CHR 0xC2, CHR 0xA0],
      [CHR 0xE1, CHR 0x9A, CHR 0x80],
      [CHR 0xE2, CHR 0x80, CHR 0x80], [CHR 0xE2, CHR 0x80, CHR 0x81],
      [CHR 0xE2, CHR 0x80, CHR 0x82], [CHR 0xE2, CHR 0x80, CHR 0x83],
      [CHR 0xE2, CHR 0x80, CHR 0x84], [CHR 0xE2, CHR 0x80, CHR 0x85],
      [CHR 0xE2, CHR 0x80, CHR 0x86], [CHR 0xE2, CHR 0x80, CHR 0x87],
      [CHR 0xE2, CHR 0x80, CHR 0x88], [CHR 0xE2, CHR 0x80, CHR 0x89],
      [CHR 0xE2, CHR 0x80, CHR 0x8A],
      [CHR 0xE2, CHR 0x80, CHR 0xA8], [CHR 0xE2, CHR 0x80, CHR 0xA9],
      [CHR 0xE2, CHR 0x80, CHR 0xAF], [CHR 0xE2, CHR 0x81, CHR 0x9F],
      [CHR 0xE3, CHR 0x80, CHR 0x80]]"

text \<open>
  The length of the encoding in \<open>encs\<close> that the text starts with, 0 when it starts
  with none of them.
\<close>

definition rune_len :: "string list \<Rightarrow> string \<Rightarrow> nat" where
  "rune_len encs s = (case find (\<lambda>e. prefix e s) encs of None \<Rightarrow> 0 | Some e \<Rightarrow> length e)"

text \<open>
  Dropping the leading runes of \<open>encs\<close>; the first argument counts the bytes of the
  current rune that are still to be dropped.
\<close>

fun trim_runes :: "string list \<Rightarrow> nat \<Rightarrow> string \<Rightarrow> string" where
  "trim_runes encs k [] = []"
| "trim_runes encs (Suc k) (c # cs) = trim_runes encs k cs"
| "trim_runes encs 0 (c # cs) =
     (let n = rune_len encs (c # cs) in
      if n = 0 then c # cs else trim_runes encs (n - 1) cs)"

text \<open>
  \<^verbatim>\<open>strings.TrimSpace\<close>: leading white space is dropped, then trailing white space (the
  last rune of a text is white space exactly when the text ends with one of the
  encodings).
\<close>

definition TrimSpace :: "string \<Rightarrow> string" where
  "TrimSpace s =
     rev (trim_runes (map rev space_runes) 0 (rev (trim_runes space_runes 0 s)))"

text \<open>\<^verbatim>\<open>strings.Index\<close>: the index of the first occurrence, or -1.\<close>

fun Index :: "string \<Rightarrow> string \<Rightarrow> int" where
  "Index [] sub = (if sub = [] then 0 else -1)"
| "Index (c # cs) sub =
     (if prefix sub (c # cs) then 0
      else let r = Index cs sub in if r = -1 then -1 else r + 1)"

text \<open>The slice expressions \<^verbatim>\<open>s[a:]\<close> and \<^verbatim>\<open>s[a:b]\<close>.\<close>

definition slice_from :: "string \<Rightarrow> int \<Rightarrow> string" where
  "slice_from s a = drop (nat a) s"

definition slice :: "string \<Rightarrow> int \<Rightarrow> int \<Rightarrow> string" where
  "slice s a b = take (nat (b - a)) (drop (nat a) s)"

subsection \<open>A JSON decoder\<close>

text \<open>
  \<^verbatim>\<open>json.Unmarshal\<close> into a \<^verbatim>\<open>map[string]interface{}\<close> belongs to the Go library.  The
  extractor below takes it as a parameter, an error being given by its message;
  \<open>json_Unmarshal\<close> is a decoder for the
  grammar of RFC 8259 to run the extractor on concrete texts.  It tells a well-formed
  document from an ill-formed one; the texts of its error messages are its own.
\<close>

definition is_json_ws :: "char \<Rightarrow> bool" where
  "is_json_ws c = (c = CHR 0x20 \<or> c = CHR 0x09 \<or> c = CHR 0x0A \<or> c = CHR 0x0D)"

definition skip_ws :: "string \<Rightarrow> string" where
  "skip_ws s = dropWhile is_json_ws s"

definition is_digit :: "char \<Rightarrow> bool" where
  "is_digit c = (let n = (of_char c :: nat) in 0x30 \<le> n \<and> n \<le> 0x39)"

definition is_hex :: "char \<Rightarrow> bool" where
  "is_hex c =
     (let n = (of_char c :: nat) in
      is_digit c \<or> (0x61 \<le> n \<and> n \<le> 0x66) \<or> (0x41 \<le> n \<and> n \<le> 0x46))"

text \<open>The text of a string after its opening quote: the escaped text and what follows
  the closing quote.\<close>

fun parse_string_body :: "string \<Rightarrow> (string \<times> string) option" where
  "parse_string_body [] = None"
| "parse_string_body (c # cs) =
     (if c = CHR 0x22 then Some ([], cs)
      else if c = CHR 0x5C then
        (case cs of
           [] \<Rightarrow> None
         | e # es \<Rightarrow>
             if e \<in> set [CHR 0x22, CHR 0x5C, CHR ''/'', CHR ''b'', CHR ''f'', CHR ''n'', CHR ''r'', CHR ''t''] then
               map_option (\<lambda>(r, rest). (c # e # r, rest)) (parse_string_body es)
             else if e = CHR ''u'' \<and> 4 \<le> length es \<and> list_all is_hex (take 4 es) then
               map_option (\<lambda>(r, rest). (c # e # take 4 es @ r, rest))
                 (parse_string_body (drop 4 es))
             else None)
      else if (of_char c :: nat) < 0x20 then None
      else map_option (\<lambda>(r, rest). (c # r, rest)) (parse_string_body cs))"

definition parse_digits :: "string \<Rightarrow> (string \<times> string) option" where
  "parse_digits s =
     (let ds = takeWhile is_digit s in
      if ds = [] then None else Some (ds, dropWhile is_digit s))"

definition parse_int_part :: "string \<Rightarrow> (string \<times> string) option" where
  "parse_int_part s =
     (case s of
        [] \<Rightarrow> None
      | c # cs \<Rightarrow>
          if c = CHR ''0'' then Some ([c], cs)
          else if is_digit c then Some (c # takeWhile is_digit cs, dropWhile is_digit cs)
          else None)"

definition parse_frac :: "string \<Rightarrow> (string \<times> string) option" where
  "parse_frac s =
     (case s of
        c # cs \<Rightarrow>
          if c = CHR ''.'' then map_option (\<lambda>(ds, rest). (c # ds, rest)) (parse_digits cs)
          else Some ([], s)
      | [] \<Rightarrow> Some ([], s))"

definition parse_exp :: "string \<Rightarrow> (string \<times> string) option" where
  "parse_exp s =
     (case s of
        c # cs \<Rightarrow>
          if c = CHR ''e'' \<or> c = CHR ''E'' then
            (case cs of
               d # ds \<Rightarrow>
                 if d = CHR ''+'' \<or> d = CHR ''-'' then
                   map_option (\<lambda>(xs, rest). (c # d # xs, rest)) (parse_digits ds)
                 else map_option (\<lambda>(xs, rest). (c # xs, rest)) (parse_digits cs)
             | [] \<Rightarrow> None)
          else Some ([], s)
      | [] \<Rightarrow> Some ([], s))"

definition parse_number :: "string \<Rightarrow> (string \<times> string) option" where
  "parse_number s =
     (let (sign, s1) = (case s of c # cs \<Rightarrow> if c = CHR ''-'' then ([c], cs) else ([], s) | [] \<Rightarrow> ([], s))
      in case parse_int_part s1 of
           None \<Rightarrow> None
         | Some (ip, s2) \<Rightarrow>
             (case parse_frac s2 of
                None \<Rightarrow> None
              | Some (fp, s3) \<Rightarrow>
                  (case parse_exp s3 of
                     None \<Rightarrow> None
                   | Some (ep, s4) \<Rightarrow> Some (sign @ ip @ fp @ ep, s4))))"

text \<open>A Go map holds one value for a key: a later member replaces an earlier one.\<close>

fun map_put :: "string \<Rightarrow> json \<Rightarrow> (string \<times> json) list \<Rightarrow> (string \<times> json) list" where
  "map_put k v [] = [(k, v)]"
| "map_put k v ((k', v') # m) = (if k = k' then (k, v) # m else (k', v') # map_put k v m)"

text \<open>
  The recursive descent.  The first argument bounds the number of nested calls; of
  two calls that follow each other one reads a byte, so twice the length of the text
  suffices.  \<open>parse_members\<close> and \<open>parse_elems\<close> take the members or elements read
  so far.
\<close>

fun parse_value :: "nat \<Rightarrow> string \<Rightarrow> (json \<times> string) option"
  and parse_members :: "nat \<Rightarrow> (string \<times> json) list \<Rightarrow> string \<Rightarrow> (json \<times> string) option"
  and parse_elems :: "nat \<Rightarrow> json list \<Rightarrow> string \<Rightarrow> (json \<times> string) option"
where
  "parse_value 0 s = None"
| "parse_value (Suc n) s =
     (case skip_ws s of
        [] \<Rightarrow> None
      | c # cs \<Rightarrow>
          if c = CHR ''{'' then
            (case skip_ws cs of
               [] \<Rightarrow> None
             | d # ds \<Rightarrow> if d = CHR ''}'' then Some (JObject [], ds) else parse_members n [] cs)
          else if c = CHR ''['' then
            (case skip_ws cs of
               [] \<Rightarrow> None
             | d # ds \<Rightarrow> if d = CHR '']'' then Some (JArray [], ds) else parse_elems n [] cs)
          else if c = CHR 0x22 then
            map_option (\<lambda>(r, rest). (JString r, rest)) (parse_string_body cs)
          else if prefix ''true'' (c # cs) then Some (JBool True, drop 4 (c # cs))
          else if prefix ''false'' (c # cs) then Some (JBool False, drop 5 (c # cs))
          else if prefix ''null'' (c # cs) then Some (JNull, drop 4 (c # cs))
          else map_option (\<lambda>(r, rest). (JNumber r, rest)) (parse_number (c # cs)))"
| "parse_members 0 ms s = None"
| "parse_members (Suc n) ms s =
     (case skip_ws s of
        [] \<Rightarrow> None
      | c # cs \<Rightarrow>
          if c \<noteq> CHR 0x22 then None
          else
            (case parse_string_body cs of
               None \<Rightarrow> None
             | Some (k, r1) \<Rightarrow>
                 (case skip_ws r1 of
                    [] \<Rightarrow> None
                  | d # r2 \<Rightarrow>
                      if d \<noteq> CHR '':'' then None
                      else
                        (case parse_value n r2 of
                           None \<Rightarrow> None
                         | Some (v, r3) \<Rightarrow>
                             (case skip_ws r3 of
                                [] \<Rightarrow> None
                              | e # r4 \<Rightarrow>
                                  if e = CHR '','' then parse_members n (map_put k v ms) r4
                                  else if e = CHR ''}'' then Some (JObject (map_put k v ms), r4)
                                  else None)))))"
| "parse_elems 0 vs s = None"
| "parse_elems (Suc n) vs s =
     (case parse_value n s of
        None \<Rightarrow> None
      | Some (v, r1) \<Rightarrow>
          (case skip_ws r1 of
             [] \<Rightarrow> None
           | e # r2 \<Rightarrow>
               if e = CHR '','' then parse_elems n (vs @ [v]) r2
               else if e = CHR '']'' then Some (JArray (vs @ [v]), r2)
               else None))"

text \<open>
  Decoding into a \<^verbatim>\<open>map[string]interface{}\<close> variable that holds nil: an object fills
  the map, \<^verbatim>\<open>null\<close> leaves it nil with no error, every other document is an error.
\<close>

definition json_Unmarshal :: "string \<Rightarrow> string + go_map" where
  "json_Unmarshal s =
     (case parse_value (2 * length s + 2) s of
        None \<Rightarrow> Inl ''invalid JSON text''
      | Some (v, rest) \<Rightarrow>
          if skip_ws rest \<noteq> [] then Inl ''invalid character after top-level value''
          else
            (case v of
               JObject ms \<Rightarrow> Inr (Some ms)
             | JNull \<Rightarrow> Inr None
             | _ \<Rightarrow> Inl ''json: cannot unmarshal into Go value of type map[string]interface {}''))"

subsection \<open>\<^verbatim>\<open>ExtractJSONFromOutput\<close>\<close>

text \<open>
  The loop that looks for the closing brace, on the bytes from index \<open>i\<close> on: the value
  of \<^verbatim>\<open>braceEnd\<close> when the loop is left, -1 when it runs to the end of the text.
\<close>

fun scan_braces :: "string \<Rightarrow> int \<Rightarrow> int \<Rightarrow> int" where
  "scan_braces [] i braceCount = -1"
| "scan_braces (c # cs) i braceCount =
     (if c = CHR ''{'' then scan_braces cs (i + 1) (braceCount + 1)
      else if c = CHR ''}'' then
        (if braceCount - 1 = 0 then i + 1 else scan_braces cs (i + 1) (braceCount - 1))
      else scan_braces cs (i + 1) braceCount)"

text \<open>The text in which the brace is looked for, after the two searches for a fence.\<close>

definition fenced_region :: "string \<Rightarrow> string" where
  \<open>fenced_region stdout =
     (let jsonStart = Index stdout ''```json'' in
      if jsonStart \<noteq> -1 then
        (let jsonStart = jsonStart + 7;
             jsonEnd = Index (slice_from stdout jsonStart) ''```''
         in if jsonEnd \<noteq> -1 then TrimSpace (slice stdout jsonStart (jsonStart + jsonEnd))
            else stdout)
      else
        (let codeStart = Index stdout ''```'' in
         if codeStart \<noteq> -1 then
           (let codeStart = codeStart + 3;
                newline = Index (slice_from stdout codeStart) ''\<newline>'';
                codeStart = (if newline \<noteq> -1 then codeStart + (newline + 1) else codeStart);
                codeEnd = Index (slice_from stdout codeStart) ''```''
            in if codeEnd \<noteq> -1 then TrimSpace (slice stdout codeStart (codeStart + codeEnd))
               else stdout)
         else stdout))\<close>

definition ExtractJSONFromOutput :: "(string \<Rightarrow> string + go_map) \<Rightarrow> string \<Rightarrow> error + go_map" where
  "ExtractJSONFromOutput unmarshal stdout0 =
     (let stdout = fenced_region (TrimSpace stdout0);
          braceStart = Index stdout ''{''
      in if braceStart = -1 then Inl (New ''no JSON object found in output'')
         else
           (let braceEnd = scan_braces (slice_from stdout braceStart) braceStart 0
            in if braceEnd = -1 then Inl (New ''no matching closing brace found'')
               else
                 (let jsonStr = slice stdout braceStart braceEnd
                  in case unmarshal jsonStr of
                       Inl m \<Rightarrow> Inl (Wrapf ''failed to parse JSON: '' (New m))
                     | Inr result \<Rightarrow> Inr result)))"

section \<open>The planning API (\<^verbatim>\<open>internal/api\<close>)\<close>

text \<open>
  The records of \<^verbatim>\<open>models.go\<close>, with the fields that the commands read or write.  A
  value of a map to \<^verbatim>\<open>interface{}\<close> that the commands build themselves is an integer,
  a boolean or a decoded JSON value.
\<close>

datatype go_value = IntV int | BoolV bool | JsonV json

type_synonym any_map = "(string \<times> go_value) list option"

definition of_json_map :: "go_map \<Rightarrow> any_map" where
  "of_json_map m = map_option (map (\<lambda>(k, v). (k, JsonV v))) m"

datatype ExecutionAttemptStatus = RUNNING | SUCCESS | FAILED | ABANDONED

datatype ValidationOutcome = PASS | FAIL | WARN | COUNTERFACTUAL | PARTIAL

datatype ValidationSeverity = INFO | WARNING | CRITICAL

record PendingDependency =
  Label :: string
  dep_EntityID :: string

record DependencyStatus =
  AllMet :: bool
  Pending :: "PendingDependency list"

record EntityExecuteResponse =
  Entity :: PlanningEntity
  DependenciesStatus :: DependencyStatus
  Inputs :: go_map

record ExecutionStartRequest =
  req_EntityID :: string
  req_ExecutionMode :: ExecutionMode
  req_AgentID :: string

record ExecutionStartResponse =
  ExecutionID :: string
  AttemptNumber :: int
  start_Inputs :: go_map

record ExecutionOutputs =
  Metrics :: any_map
  out_Stdout :: string
  out_Stderr :: string
  Structured :: go_map

record ValidationRecord =
  ValidationType :: string
  Outcome :: ValidationOutcome
  Severity :: ValidationSeverity
  Target :: string
  Actual :: any_map
  vr_FailureReason :: "string option"

record ExecutionCompleteRequest =
  Status :: ExecutionAttemptStatus
  Outputs :: "ExecutionOutputs option"
  FailureReason :: "string option"
  ValidationRecords :: "ValidationRecord list"

record ExecutionCompleteResponse =
  resp_Success :: bool
  Message :: string

record TaskInfo =
  task_ID :: string
  task_Title :: string

record PlanNextResponse =
  Task :: "TaskInfo option"
  PendingCount :: int

text \<open>The calls that reach the server, in the order in which they are made.\<close>

datatype api_call =
    FetchEntityForExecution string
  | StartExecution ExecutionStartRequest
  | CompleteExecution string ExecutionCompleteRequest
  | FetchNextTaskForProcess string string

section \<open>Schema validation (\<^verbatim>\<open>internal/validator/schema.go\<close>)\<close>

text \<open>
  The two library functions that the lifecycle reaches through the validator:
  \<^verbatim>\<open>json.Unmarshal\<close>, and \<^verbatim>\<open>gojsonschema.Validate\<close> applied to a schema and a document,
  which returns an error (its message is kept) or a result with its \<^verbatim>\<open>Valid()\<close> flag and the texts of its
  \<^verbatim>\<open>Errors()\<close>.
\<close>

record schema_result =
  Valid :: bool
  Errors :: "string list"

record libs =
  unmarshal :: "string \<Rightarrow> string + go_map"
  gojsonschema_Validate :: "go_map \<Rightarrow> go_map \<Rightarrow> string + schema_result"

fun Join :: "string list \<Rightarrow> string \<Rightarrow> string" where
  "Join [] sep = []"
| "Join [x] sep = x"
| "Join (x # y # ys) sep = x @ sep @ Join (y # ys) sep"

definition ValidateInputs :: "libs \<Rightarrow> go_map \<Rightarrow> go_map \<Rightarrow> error option" where
  "ValidateInputs lib inputs schema =
     (if schema = None \<or> len_map schema = 0 then None
      else
        case gojsonschema_Validate lib schema inputs of
          Inl m \<Rightarrow> Some (Wrapf ''validation error: '' (New m))
        | Inr result \<Rightarrow>
            if \<not> Valid result then
              Some (New (''input validation failed: '' @ Join (Errors result) ''; ''))
            else None)"

definition ValidateOutputs :: "libs \<Rightarrow> go_map \<Rightarrow> go_map \<Rightarrow> error option" where
  "ValidateOutputs lib outputs schema =
     (if schema = None \<or> len_map schema = 0 then None
      else
        case gojsonschema_Validate lib schema outputs of
          Inl m \<Rightarrow> Some (Wrapf ''validation error: '' (New m))
        | Inr result \<Rightarrow>
            if \<not> Valid result then
              Some (New (''output validation failed: '' @ Join (Errors result) ''; ''))
            else None)"

section \<open>The entity lifecycle (\<^verbatim>\<open>cmd/run.go\<close>)\<close>

subsection \<open>Formatting\<close>

fun nat_digits :: "nat \<Rightarrow> string" where
  "nat_digits n =
     (if n < 10 then [''0123456789'' ! n]
      else nat_digits (n div 10) @ [''0123456789'' ! (n mod 10)])"

text \<open>The verb \<^verbatim>\<open>%d\<close> on an \<^verbatim>\<open>int\<close>.\<close>

definition Itoa :: "int \<Rightarrow> string" where
  "Itoa i = (if i < 0 then CHR ''-'' # nat_digits (nat (- i)) else nat_digits (nat i))"

text \<open>The verb \<^verbatim>\<open>%v\<close> on a slice of \<^verbatim>\<open>PendingDependency\<close>.\<close>

definition fmt_pending :: "PendingDependency list \<Rightarrow> string" where
  "fmt_pending ds =
     ''['' @ Join (map (\<lambda>d. ''{'' @ Label d @ '' '' @ dep_EntityID d @ ''}'') ds) '' '' @ '']''"

subsection \<open>What the environment does during one call of \<^verbatim>\<open>executeEntity\<close>\<close>

text \<open>
  The answer of each API call (\<open>Inl m\<close>: the call returned an error with message \<open>m\<close>),
  what the subprocess did if a backend launched one, and the value of
  \<^verbatim>\<open>execDuration.Milliseconds()\<close>.  An answer is read only if the call is made.
\<close>

record entity_obs =
  fetch_result :: "string + EntityExecuteResponse"
  start_result :: "string + ExecutionStartResponse"
  process :: proc_obs
  exec_ms :: int
  complete_result :: "string + ExecutionCompleteResponse"

record EntityExecutionParams =
  EntityID :: string
  AgentID :: string

subsection \<open>\<^verbatim>\<open>executeEntity\<close>\<close>

text \<open>Step 4, the switch on the execution mode; \<open>None\<close> is the \<^verbatim>\<open>default\<close> branch.\<close>

definition dispatch :: "PlanningEntity \<Rightarrow> proc_obs \<Rightarrow> ExecutionResult option" where
  "dispatch entity obs =
     (let mode = ExecutionMode entity in
      if mode = ExecutionModeLLMReasoning then Some (ExecuteLLM entity obs)
      else if mode = ExecutionModeBash then Some (ExecuteBash entity obs)
      else if mode = ExecutionModePython then Some (ExecutePython entity obs)
      else if mode = ExecutionModePythonSandbox then Some (ExecutePython entity obs)
      else if mode = ExecutionModeHybrid then Some (ExecuteLLM entity obs)
      else None)"

text \<open>
  Step 4b: the value of \<^verbatim>\<open>structuredOutput\<close> and of \<^verbatim>\<open>outputValidationRecord\<close> (\<open>None\<close>
  is nil) after the check of the output against the output schema.
\<close>

definition output_validation ::
  "libs \<Rightarrow> PlanningEntity \<Rightarrow> ExecutionResult \<Rightarrow> go_map \<times> ValidationRecord option" where
  "output_validation lib entity result =
     (if Success result \<and> len_map (OutputSchema entity) > 0 then
        (case ExtractJSONFromOutput (unmarshal lib) (Stdout result) of
           Inl extractErr \<Rightarrow>
             (None,
              Some \<lparr>ValidationType = ''OUTPUT_SCHEMA'', Outcome = WARN, Severity = WARNING,
                    Target = ''output_schema'', Actual = None,
                    vr_FailureReason =
                      Some (''Failed to extract structured output: '' @ Error_string extractErr)\<rparr>)
         | Inr extracted \<Rightarrow>
             (case ValidateOutputs lib extracted (OutputSchema entity) of
                Some err \<Rightarrow>
                  (extracted,
                   Some \<lparr>ValidationType = ''OUTPUT_SCHEMA'', Outcome = FAIL, Severity = WARNING,
                         Target = ''output_schema'', Actual = of_json_map extracted,
                         vr_FailureReason = Some (Error_string err)\<rparr>)
              | None \<Rightarrow>
                  (extracted,
                   Some \<lparr>ValidationType = ''OUTPUT_SCHEMA'', Outcome = PASS, Severity = INFO,
                         Target = ''output_schema'', Actual = of_json_map extracted,
                         vr_FailureReason = None\<rparr>)))
      else (None, None))"

text \<open>Step 5: the completion request.\<close>

definition completion_request ::
  "ExecutionResult \<Rightarrow> int \<Rightarrow> go_map \<Rightarrow> ValidationRecord option \<Rightarrow> ExecutionCompleteRequest" where
  "completion_request result ms structuredOutput outputValidationRecord =
     (if Success result then
        \<lparr>Status = SUCCESS,
         Outputs = Some \<lparr>Metrics = Some [(''duration_ms'', IntV ms), (''exit_code'', IntV (ExitCode result))],
                         out_Stdout = Stdout result, out_Stderr = Stderr result,
                         Structured = (if structuredOutput \<noteq> None then structuredOutput else None)\<rparr>,
         FailureReason = None,
         ValidationRecords =
           [\<lparr>ValidationType = ''OUTPUT'', Outcome = PASS, Severity = INFO,
             Target = ''execution_completion'',
             Actual = Some [(''exit_code'', IntV (ExitCode result)), (''duration_ms'', IntV ms)],
             vr_FailureReason = None\<rparr>]
           @ (case outputValidationRecord of None \<Rightarrow> [] | Some r \<Rightarrow> [r])\<rparr>
      else
        (let failureMsg = ''Execution failed with exit code '' @ Itoa (ExitCode result);
             failureMsg = (case Error result of
                             None \<Rightarrow> failureMsg
                           | Some err \<Rightarrow> failureMsg @ '': '' @ Error_string err)
         in \<lparr>Status = FAILED,
             Outputs = Some \<lparr>Metrics = Some [(''duration_ms'', IntV ms), (''exit_code'', IntV (ExitCode result))],
                             out_Stdout = Stdout result, out_Stderr = Stderr result,
                             Structured = None\<rparr>,
             FailureReason = Some failureMsg,
             ValidationRecords =
               [\<lparr>ValidationType = ''OUTPUT'', Outcome = FAIL, Severity = CRITICAL,
                 Target = ''execution_completion'',
                 Actual = Some [(''exit_code'', IntV (ExitCode result)), (''duration_ms'', IntV ms)],
                 vr_FailureReason = Some failureMsg\<rparr>]\<rparr>))"

text \<open>
  The lifecycle of one entity: the pair that the function returns (\<open>None\<close> is a nil
  error) and the API calls it made.  The inputs that \<^verbatim>\<open>StartExecution\<close> returns go to the
  subprocess only, whose behaviour is part of the observation.
\<close>

definition executeEntity ::
  "libs \<Rightarrow> EntityExecutionParams \<Rightarrow> entity_obs \<Rightarrow> (bool \<times> error option) \<times> api_call list" where
  "executeEntity lib params obs =
     (let c1 = [FetchEntityForExecution (EntityID params)] in
      case fetch_result obs of
        Inl m \<Rightarrow> ((False, Some (Wrapf ''failed to fetch entity: '' (New m))), c1)
      | Inr entityResp \<Rightarrow>
          if \<not> AllMet (DependenciesStatus entityResp) then
            ((False, Some (New (''dependencies not met: ''
                 @ fmt_pending (Pending (DependenciesStatus entityResp))))), c1)
          else
            case (if len_map (InputSchema (Entity entityResp)) > 0
                  then ValidateInputs lib (Inputs entityResp) (InputSchema (Entity entityResp))
                  else None) of
              Some err \<Rightarrow> ((False, Some (Wrapf ''input validation failed: '' err)), c1)
            | None \<Rightarrow>
                let startExecReq =
                      \<lparr>req_EntityID = EntityID params,
                       req_ExecutionMode = ExecutionMode (Entity entityResp),
                       req_AgentID = AgentID params\<rparr>;
                    c2 = c1 @ [StartExecution startExecReq]
                in
                case start_result obs of
                  Inl m \<Rightarrow> ((False, Some (Wrapf ''failed to start execution: '' (New m))), c2)
                | Inr startResp \<Rightarrow>
                    let executionID = ExecutionID startResp in
                    if ExecutionMode (Entity entityResp) = ExecutionModeAskUser then
                      ((False, Some ErrAskUserSkipped), c2)
                    else
                      case dispatch (Entity entityResp) (process obs) of
                        None \<Rightarrow>
                          ((False, Some (New (''unknown execution mode: ''
                               @ ExecutionMode (Entity entityResp)))), c2)
                      | Some result \<Rightarrow>
                          let (structuredOutput, outputValidationRecord) =
                                output_validation lib (Entity entityResp) result;
                              completeReq =
                                completion_request result (exec_ms obs) structuredOutput
                                  outputValidationRecord;
                              c3 = c2 @ [CompleteExecution executionID completeReq]
                          in
                          case complete_result obs of
                            Inl m \<Rightarrow>
                              ((False, Some (Wrapf ''failed to complete execution: '' (New m))), c3)
                          | Inr r \<Rightarrow> ((Success result, None), c3))"

section \<open>The Process driver (\<^verbatim>\<open>cmd/run.go\<close>)\<close>

text \<open>
  What the environment does during one turn of the loop of \<^verbatim>\<open>runProcessExecution\<close>:
  whether \<^verbatim>\<open>ctx.Done()\<close> is ready when the \<^verbatim>\<open>select\<close> at the top runs, the answer of
  \<^verbatim>\<open>FetchNextTaskForProcess\<close>, and what happens during the call of \<^verbatim>\<open>executeEntity\<close>.
  Each part is read only if the turn gets to it.
\<close>

record iter_obs =
  ctx_done :: bool
  next_result :: "string + PlanNextResponse"
  entity_run :: entity_obs

record process_obs =
  process_start_result :: "string + ExecutionStartResponse"
  iterations :: "iter_obs list"
  process_complete_result :: "string + ExecutionCompleteResponse"

text \<open>A turn that is not cancelled and in which the server hands out a task.\<close>

definition pulls_task :: "iter_obs \<Rightarrow> bool" where
  "pulls_task it =
     (\<not> ctx_done it \<and> (case next_result it of Inl m \<Rightarrow> False | Inr r \<Rightarrow> Task r \<noteq> None))"

text \<open>The variables of the loop, and the API calls made so far.\<close>

record loop_state =
  tasksExecuted :: int
  lastError :: "error option"
  interrupted :: bool
  calls :: "api_call list"

text \<open>The \<^verbatim>\<open>if\<close> that follows the call of \<^verbatim>\<open>executeEntity\<close>.\<close>

definition record_outcome :: "bool \<times> error option \<Rightarrow> loop_state \<Rightarrow> loop_state" where
  "record_outcome r st =
     (case r of (success, err) \<Rightarrow>
        if err \<noteq> None \<and> \<not> Is_ErrAskUserSkipped (the err) then st\<lparr>lastError := err\<rparr>
        else if success then st\<lparr>tasksExecuted := tasksExecuted st + 1\<rparr>
        else st)"

text \<open>
  What the call of \<^verbatim>\<open>executeEntity\<close> in a turn returns, and whether the driver takes it
  as an error: a non-nil error that is not the skip signal.
\<close>

definition child_outcome :: "libs \<Rightarrow> string \<Rightarrow> iter_obs \<Rightarrow> bool \<times> error option" where
  "child_outcome lib agentID it =
     (case next_result it of
        Inl m \<Rightarrow> (False, None)
      | Inr r \<Rightarrow>
          (case Task r of
             None \<Rightarrow> (False, None)
           | Some task \<Rightarrow>
               fst (executeEntity lib \<lparr>EntityID = task_ID task, AgentID = agentID\<rparr> (entity_run it))))"

definition child_error :: "bool \<times> error option \<Rightarrow> bool" where
  "child_error r = (case snd r of None \<Rightarrow> False | Some e \<Rightarrow> \<not> Is_ErrAskUserSkipped e)"

text \<open>
  The loop, one turn for each observation.  It is left with \<open>Some\<close> of the state on
  cancellation, on a failed fetch and when no task remains; \<open>None\<close> says that the
  observations ended while the loop was still running.
\<close>

fun process_loop ::
  "libs \<Rightarrow> string \<Rightarrow> string \<Rightarrow> iter_obs list \<Rightarrow> loop_state \<Rightarrow> loop_state option" where
  "process_loop lib agentID processEntityID [] st = None"
| "process_loop lib agentID processEntityID (it # its) st =
     (if ctx_done it then Some (st\<lparr>interrupted := True, lastError := Some Canceled\<rparr>)
      else
        let st1 = st\<lparr>calls := calls st @ [FetchNextTaskForProcess agentID processEntityID]\<rparr> in
        case next_result it of
          Inl m \<Rightarrow> Some (st1\<lparr>lastError := Some (New m)\<rparr>)
        | Inr nextResp \<Rightarrow>
            (case Task nextResp of
               None \<Rightarrow> Some st1
             | Some task \<Rightarrow>
                 (case executeEntity lib \<lparr>EntityID = task_ID task, AgentID = agentID\<rparr>
                         (entity_run it) of
                    (r, cs) \<Rightarrow>
                      process_loop lib agentID processEntityID its
                        (record_outcome r (st1\<lparr>calls := calls st1 @ cs\<rparr>)))))"

text \<open>The request built after the label \<^verbatim>\<open>complete\<close>.\<close>

definition process_completion :: "loop_state \<Rightarrow> ExecutionCompleteRequest" where
  "process_completion st =
     (let completeReq =
            \<lparr>Status = SUCCESS,
             Outputs = Some \<lparr>Metrics = Some [(''tasks_executed'', IntV (tasksExecuted st)),
                                              (''interrupted'', BoolV (interrupted st))],
                             out_Stdout = [], out_Stderr = [], Structured = None\<rparr>,
             FailureReason = None,
             ValidationRecords = []\<rparr>
      in if interrupted st then
           completeReq\<lparr>Status := ABANDONED,
                       FailureReason := Some ''Process execution interrupted by signal''\<rparr>
         else if lastError st \<noteq> None then
           completeReq\<lparr>Status := FAILED,
                       FailureReason := Some (Error_string (the (lastError st)))\<rparr>
         else completeReq)"

text \<open>
  \<^verbatim>\<open>runProcessExecution\<close>: the error it returns (\<open>None\<close> is nil) and the API calls it
  made; \<open>None\<close> when the loop does not end on the observations given.
\<close>

definition runProcessExecution ::
  "libs \<Rightarrow> string \<Rightarrow> string \<Rightarrow> process_obs \<Rightarrow> (error option \<times> api_call list) option" where
  "runProcessExecution lib agentID processEntityID obs =
     (let startReq = \<lparr>req_EntityID = processEntityID, req_ExecutionMode = ''PROCESS'',
                       req_AgentID = agentID\<rparr>
      in case process_start_result obs of
           Inl m \<Rightarrow>
             Some (Some (Wrapf ''failed to start Process run: '' (New m)), [StartExecution startReq])
         | Inr startResp \<Rightarrow>
             let processRunID = ExecutionID startResp in
             case process_loop lib agentID processEntityID (iterations obs)
                    \<lparr>tasksExecuted = 0, lastError = None, interrupted = False,
                     calls = [StartExecution startReq]\<rparr> of
               None \<Rightarrow> None
             | Some st \<Rightarrow>
                 let completeReq = process_completion st;
                     cs = calls st @ [CompleteExecution processRunID completeReq]
                 in case process_complete_result obs of
                      Inl m \<Rightarrow> Some (Some (New m), cs)
                    | Inr r \<Rightarrow>
                        if interrupted st then Some (Some (New ''Process execution interrupted''), cs)
                        else if lastError st \<noteq> None then
                          Some (Some (Wrapf ''Process completed with errors: '' (the (lastError st))), cs)
                        else Some (None, cs))"

section \<open>Resumption at start-up (\<^verbatim>\<open>cmd/agent.go\<close>)\<close>

text \<open>
  An entry of \<^verbatim>\<open>recoverResp.ResumedRuns\<close>.
\<close>

record ResumedRun =
  RunID :: string
  run_EntityID :: string
  run_ExecutionMode :: string

text \<open>
  The shared state of the start-up loop and of the goroutines it launches: the keys of
  the \<^verbatim>\<open>sync.Map\<close> \<^verbatim>\<open>activeResumes\<close>, the goroutines that were launched and have not
  returned yet (entity and run identifier of each), and all the launches so far.
\<close>

record resume_state =
  activeResumes :: "string set"
  running :: "(string \<times> string) list"
  launched :: "(string \<times> string) list"

text \<open>
  One turn of the loop over the resumed runs, with its \<^verbatim>\<open>LoadOrStore\<close> and, if the key
  was not there, the launch of the goroutine.  The value of
  \<^verbatim>\<open>api.ExecutionModeOrchestrate\<close> is not fixed: it is the first argument.
\<close>

definition visit :: "string \<Rightarrow> ResumedRun \<Rightarrow> resume_state \<Rightarrow> resume_state" where
  "visit orchestrate resumed s =
     (if run_ExecutionMode resumed = orchestrate then
        (let runID = RunID resumed;
             loaded = (runID \<in> activeResumes s);
             s1 = s\<lparr>activeResumes := insert runID (activeResumes s)\<rparr>
         in if loaded then s1
            else s1\<lparr>running := running s1 @ [(run_EntityID resumed, runID)],
                    launched := launched s1 @ [(run_EntityID resumed, runID)]\<rparr>)
      else s)"

text \<open>The end of the goroutine for an entity and a run, with its deferred \<^verbatim>\<open>Delete\<close>.\<close>

definition goroutine_return :: "string \<Rightarrow> string \<Rightarrow> resume_state \<Rightarrow> resume_state" where
  "goroutine_return entityID runID s =
     s\<lparr>running := remove1 (entityID, runID) (running s),
       activeResumes := activeResumes s - {runID}\<rparr>"

text \<open>
  The states that an interleaving of the start-up loop over \<open>runs\<close> with the returns
  of the goroutines can reach: the state, and the runs that the loop has still to
  visit.  A turn of the loop and the return of a goroutine are the atomic steps; a
  goroutine can return only while it runs.
\<close>

inductive reachable :: "string \<Rightarrow> ResumedRun list \<Rightarrow> resume_state \<times> ResumedRun list \<Rightarrow> bool"
  for orchestrate :: string and runs :: "ResumedRun list" where
  start: "reachable orchestrate runs (\<lparr>activeResumes = {}, running = [], launched = []\<rparr>, runs)"
| loop_turn: "reachable orchestrate runs (s, r # rs) \<Longrightarrow>
     reachable orchestrate runs (visit orchestrate r s, rs)"
| return: "reachable orchestrate runs (s, rs) \<Longrightarrow> (e, rid) \<in> set (running s) \<Longrightarrow>
     reachable orchestrate runs (goroutine_return e rid s, rs)"

section \<open>Reading the list of calls\<close>

fun is_StartExecution :: "api_call \<Rightarrow> bool" where
  "is_StartExecution (StartExecution req) = True"
| "is_StartExecution _ = False"

fun is_CompleteExecution :: "api_call \<Rightarrow> bool" where
  "is_CompleteExecution (CompleteExecution rid req) = True"
| "is_CompleteExecution _ = False"

fun is_FetchNextTaskForProcess :: "api_call \<Rightarrow> bool" where
  "is_FetchNextTaskForProcess (FetchNextTaskForProcess a p) = True"
| "is_FetchNextTaskForProcess _ = False"

fun is_FetchEntityForExecution :: "api_call \<Rightarrow> bool" where
  "is_FetchEntityForExecution (FetchEntityForExecution e) = True"
| "is_FetchEntityForExecution _ = False"

fun completion_of :: "api_call \<Rightarrow> ExecutionCompleteRequest option" where
  "completion_of (CompleteExecution rid req) = Some req"
| "completion_of _ = None"

definition completed_statuses :: "api_call list \<Rightarrow> ExecutionAttemptStatus list" where
  "completed_statuses cs = map Status (List.map_filter completion_of cs)"

definition final_request :: "(error option \<times> api_call list) option \<Rightarrow> ExecutionCompleteRequest option" where
  "final_request r =
     (case r of
        None \<Rightarrow> None
      | Some (e, cs) \<Rightarrow> if cs = [] then None else completion_of (last cs))"

section \<open>Example observations\<close>

text \<open>
  Two stand-ins for the schema library, one that accepts every document and one that
  rejects every document, and the observations of some concrete runs.
\<close>

definition accepting_lib :: libs where
  "accepting_lib = \<lparr>unmarshal = json_Unmarshal,
     gojsonschema_Validate = (\<lambda>schema doc. Inr \<lparr>Valid = True, Errors = []\<rparr>)\<rparr>"

definition rejecting_lib :: libs where
  "rejecting_lib = \<lparr>unmarshal = json_Unmarshal,
     gojsonschema_Validate = (\<lambda>schema doc. Inr \<lparr>Valid = False, Errors = [''a is required'']\<rparr>)\<rparr>"

definition bash_entity :: PlanningEntity where
  "bash_entity = \<lparr>ID = ''t'', Type = ''TASK'', Title = ''say hello'',
     ExecutionMode = ExecutionModeBash, InputSchema = None, OutputSchema = None,
     Code = Some ''echo hello''\<rparr>"

definition child_ok :: entity_obs where
  "child_ok = \<lparr>fetch_result = Inr \<lparr>Entity = bash_entity,
        DependenciesStatus = \<lparr>AllMet = True, Pending = []\<rparr>, Inputs = None\<rparr>,
     start_result = Inr \<lparr>ExecutionID = ''run'', AttemptNumber = 1, start_Inputs = None\<rparr>,
     process = \<lparr>stdout_writes = [''hello\<newline>''], stderr_writes = [], run_err = None,
                deadline_exceeded = False\<rparr>,
     exec_ms = 5,
     complete_result = Inr \<lparr>resp_Success = True, Message = []\<rparr>\<rparr>"

definition child_exit_1 :: entity_obs where
  "child_exit_1 = child_ok\<lparr>process := (process child_ok)\<lparr>run_err := Some (ExitError 1 ''exit status 1'')\<rparr>\<rparr>"

definition turn :: "string \<Rightarrow> entity_obs \<Rightarrow> iter_obs" where
  "turn tid e = \<lparr>ctx_done = False,
      next_result = Inr \<lparr>Task = Some \<lparr>task_ID = tid, task_Title = []\<rparr>, PendingCount = 0\<rparr>,
      entity_run = e\<rparr>"

definition last_turn :: iter_obs where
  "last_turn = \<lparr>ctx_done = False, next_result = Inr \<lparr>Task = None, PendingCount = 0\<rparr>,
      entity_run = child_ok\<rparr>"

definition three_children :: process_obs where
  "three_children = \<lparr>process_start_result = Inr \<lparr>ExecutionID = ''prun'', AttemptNumber = 1, start_Inputs = None\<rparr>,
     iterations = [turn ''t1'' child_ok, turn ''t2'' child_exit_1, turn ''t3'' child_ok, last_turn],
     process_complete_result = Inr \<lparr>resp_Success = True, Message = []\<rparr>\<rparr>"

definition ask_user_obs :: entity_obs where
  "ask_user_obs = child_ok\<lparr>fetch_result := Inr \<lparr>Entity = bash_entity\<lparr>ExecutionMode := ExecutionModeAskUser, Code := None\<rparr>,
        DependenciesStatus = \<lparr>AllMet = True, Pending = []\<rparr>, Inputs = None\<rparr>\<rparr>"

definition unmet_obs :: entity_obs where
  "unmet_obs = child_ok\<lparr>fetch_result := Inr \<lparr>Entity = bash_entity,
        DependenciesStatus = \<lparr>AllMet = False, Pending = [\<lparr>Label = ''prev'', dep_EntityID = ''t0''\<rparr>]\<rparr>,
        Inputs = None\<rparr>\<rparr>"

definition schema_a :: go_map where
  "schema_a = Some [(''required'', JArray [JString ''a''])]"

definition bad_input_obs :: entity_obs where
  "bad_input_obs = child_ok\<lparr>fetch_result := Inr \<lparr>Entity = bash_entity\<lparr>InputSchema := schema_a\<rparr>,
        DependenciesStatus = \<lparr>AllMet = True, Pending = []\<rparr>, Inputs = Some []\<rparr>\<rparr>"

definition no_json_obs :: entity_obs where
  "no_json_obs = child_ok\<lparr>fetch_result := Inr \<lparr>Entity = bash_entity\<lparr>OutputSchema := schema_a\<rparr>,
        DependenciesStatus = \<lparr>AllMet = True, Pending = []\<rparr>, Inputs = None\<rparr>\<rparr>"

definition wrong_json_obs :: entity_obs where
  \<open>wrong_json_obs = no_json_obs\<lparr>process := (process child_ok)\<lparr>stdout_writes := [''{"b":1}'']\<rparr>\<rparr>\<close>

definition schema_entity :: PlanningEntity where
  "schema_entity = bash_entity\<lparr>OutputSchema := schema_a\<rparr>"

definition ready :: "PlanningEntity \<Rightarrow> EntityExecuteResponse" where
  "ready e = \<lparr>Entity = e, DependenciesStatus = \<lparr>AllMet = True, Pending = []\<rparr>, Inputs = None\<rparr>"

definition run_started :: ExecutionStartResponse where
  "run_started = \<lparr>ExecutionID = ''run'', AttemptNumber = 1, start_Inputs = None\<rparr>"

definition printed :: "string \<Rightarrow> ExecutionResult" where
  "printed out = \<lparr>Success = True, Stdout = out, Stderr = [], ExitCode = 0, Error = None\<rparr>"

definition cancel_turn :: iter_obs where
  "cancel_turn = last_turn\<lparr>ctx_done := True\<rparr>"

definition child_unreported :: entity_obs where
  "child_unreported = child_ok\<lparr>complete_result := Inl ''503 Service Unavailable''\<rparr>"

definition cancelled_run :: process_obs where
  "cancelled_run = three_children\<lparr>iterations :=
      [turn ''t1'' child_unreported, cancel_turn, turn ''t3'' child_ok, last_turn]\<rparr>"

definition process_started :: ExecutionStartResponse where
  "process_started = \<lparr>ExecutionID = ''prun'', AttemptNumber = 1, start_Inputs = None\<rparr>"

definition orchestrate_run :: ResumedRun where
  "orchestrate_run = \<lparr>RunID = ''r1'', run_EntityID = ''e1'', run_ExecutionMode = ''ORCHESTRATE''\<rparr>"

definition leaf_run :: ResumedRun where
  "leaf_run = \<lparr>RunID = ''r2'', run_EntityID = ''e2'', run_ExecutionMode = ''BASH''\<rparr>"

definition one_resuming :: resume_state where
  "one_resuming = \<lparr>activeResumes = {''r1''}, running = [(''e1'', ''r1'')], launched = [(''e1'', ''r1'')]\<rparr>"

definition infrastructure_failure :: process_obs where
  "infrastructure_failure = three_children\<lparr>iterations :=
      [turn ''t1'' child_ok, turn ''t2'' child_unreported, turn ''t3'' child_ok, last_turn]\<rparr>"

section \<open>Properties\<close>

lemma Write_limit [simp]: "limit (fst (Write w p)) = limit w"
  by (simp add: Write_def Let_def)

lemma Write_error [simp]: "snd (snd (Write w p)) = None"
  by (simp add: Write_def Let_def)

lemma Write_buf:
  assumes "0 \<le> limit w" and "buf w = take (nat (limit w)) done"
  shows "buf (fst (Write w p)) = take (nat (limit w)) (done @ p)"
proof (cases "limit w - int (length (buf w)) \<le> 0")
  case True
  then have full: "nat (limit w) \<le> length (buf w)" by linarith
  with assms(2) have "nat (limit w) \<le> length done" by simp
  then have "take (nat (limit w)) (done @ p) = take (nat (limit w)) done" by simp
  with True assms(2) show ?thesis by (simp add: Write_def Let_def)
next
  case False
  then have room: "length (buf w) < nat (limit w)" by linarith
  with assms(2) have short: "length done < nat (limit w)" and eq: "buf w = done"
    by (auto simp: min_def split: if_splits)
  have rem: "nat (limit w - int (length done)) = nat (limit w) - length done"
    using assms(1) by linarith
  show ?thesis
  proof (cases "int (length p) > limit w - int (length (buf w))")
    case True
    with False eq rem short show ?thesis
      by (simp add: Write_def Let_def)
  next
    case False': False
    then have "length done + length p \<le> nat (limit w)" using eq assms(1) by simp
    with False False' eq show ?thesis
      by (simp add: Write_def Let_def)
  qed
qed

lemma WriteAll_Cons:
  "WriteAll w (p # ps) =
     (fst (WriteAll (fst (Write w p)) ps),
      snd (Write w p) # snd (WriteAll (fst (Write w p)) ps))"
  by (simp split: prod.splits)

lemma WriteAll_limit [simp]: "limit (fst (WriteAll w ps)) = limit w"
proof (induction ps arbitrary: w)
  case Nil
  show ?case by simp
next
  case (Cons p ps)
  have "limit (fst (WriteAll (fst (Write w p)) ps)) = limit w"
    using Cons.IH [of "fst (Write w p)"] by simp
  then show ?case by (simp only: WriteAll_Cons fst_conv)
qed

lemma WriteAll_buf:
  assumes "0 \<le> limit w" and "buf w = take (nat (limit w)) done"
  shows "buf (fst (WriteAll w ps)) = take (nat (limit w)) (done @ concat ps)"
  using assms
proof (induction ps arbitrary: w "done")
  case Nil
  then show ?case by simp
next
  case (Cons p ps)
  let ?w = "fst (Write w p)"
  have "0 \<le> limit ?w" using Cons.prems(1) by simp
  moreover have "buf ?w = take (nat (limit ?w)) (done @ p)"
    using Write_buf [OF Cons.prems] by simp
  ultimately have "buf (fst (WriteAll ?w ps)) = take (nat (limit ?w)) ((done @ p) @ concat ps)"
    by (rule Cons.IH)
  then show ?case by (simp only: WriteAll_Cons fst_conv Write_limit concat.simps append_assoc)
qed

lemma WriteAll_errors: "map snd (snd (WriteAll w ps)) = replicate (length ps) None"
proof (induction ps arbitrary: w)
  case Nil
  show ?case by simp
next
  case (Cons p ps)
  have "snd (snd (Write w p)) = None" by simp
  moreover have "map snd (snd (WriteAll (fst (Write w p)) ps)) = replicate (length ps) None"
    by (rule Cons.IH)
  ultimately show ?case by (simp only: WriteAll_Cons snd_conv list.map length_Cons replicate_Suc)
qed

subsection \<open>The output cap\<close>

lemma capture_eq: "capture ws = take (nat maxOutputBytes) (concat ws)"
proof -
  let ?w = "newLimitedWriter maxOutputBytes"
  have "0 \<le> limit ?w" by (simp add: newLimitedWriter_def maxOutputBytes_def)
  moreover have "buf ?w = take (nat (limit ?w)) []" by (simp add: newLimitedWriter_def)
  ultimately have "buf (fst (WriteAll ?w ws)) = take (nat (limit ?w)) ([] @ concat ws)"
    by (rule WriteAll_buf)
  then show ?thesis by (simp add: capture_def newLimitedWriter_def)
qed

lemma nat_maxOutputBytes: "nat maxOutputBytes = 1048576"
  by (simp add: maxOutputBytes_def)

text \<open>
  The copy loop makes the same calls as \<open>WriteAll\<close> up to the first short count, and
  the buffer is full from then on: the text captured is the same.
\<close>

lemma Write_result:
  obtains w' nw where "Write w p = (w', nw, None)" and "0 \<le> nw" and "nw \<le> int (length p)"
proof (cases "limit w - int (length (buf w)) \<le> 0")
  case True
  then have "Write w p = (w, int (length p), None)" by (simp add: Write_def)
  then show ?thesis using that by simp
next
  case False
  let ?p = "if int (length p) > limit w - int (length (buf w))
            then take (nat (limit w - int (length (buf w)))) p else p"
  from False have "Write w p = (w\<lparr>buf := buf w @ ?p\<rparr>, int (length ?p), None)"
    by (simp add: Write_def Let_def)
  moreover have "int (length ?p) \<le> int (length p)" by (simp add: min_def)
  ultimately show ?thesis using that by simp
qed

lemma io_Copy_Cons:
  "io_Copy w (p # ps) =
     (if fst (snd (Write w p)) = int (length p) then io_Copy (fst (Write w p)) ps
      else (fst (Write w p), Some ErrShortWrite))"
proof -
  obtain w' nw where r: "Write w p = (w', nw, None)" "0 \<le> nw" "nw \<le> int (length p)"
    by (rule Write_result)
  then show ?thesis by (simp add: Let_def)
qed

lemma Write_short_full:
  assumes "0 \<le> limit w" and "fst (snd (Write w p)) \<noteq> int (length p)"
  shows "int (length (buf (fst (Write w p)))) = limit w"
  using assms by (auto simp add: Write_def Let_def split: if_splits)

lemma io_Copy_buf:
  assumes "0 \<le> limit w" and "buf w = take (nat (limit w)) done"
  shows "buf (fst (io_Copy w ps)) = take (nat (limit w)) (done @ concat ps)"
  using assms
proof (induction ps arbitrary: w "done")
  case Nil
  then show ?case by simp
next
  case (Cons p ps)
  let ?w = "fst (Write w p)"
  have l: "0 \<le> limit ?w" using Cons.prems(1) by simp
  have b: "buf ?w = take (nat (limit ?w)) (done @ p)"
    using Write_buf [OF Cons.prems] by simp
  show ?case
  proof (cases "fst (snd (Write w p)) = int (length p)")
    case True
    have "buf (fst (io_Copy ?w ps)) = take (nat (limit ?w)) ((done @ p) @ concat ps)"
      using l b by (rule Cons.IH)
    with True show ?thesis by (simp add: io_Copy_Cons del: io_Copy.simps)
  next
    case False
    from Write_short_full [OF Cons.prems(1) False]
    have "length (buf ?w) = nat (limit w)" by linarith
    with b have "nat (limit w) \<le> length (done @ p)" by (simp add: min_def split: if_splits)
    then have "take (nat (limit w)) ((done @ p) @ concat ps) = take (nat (limit w)) (done @ p)"
      by simp
    with False b show ?thesis by (simp add: io_Copy_Cons del: io_Copy.simps)
  qed
qed

lemma io_Copy_capture:
  "buf (fst (io_Copy (newLimitedWriter maxOutputBytes) ws)) = capture ws"
proof -
  let ?w = "newLimitedWriter maxOutputBytes"
  have "0 \<le> limit ?w" by (simp add: newLimitedWriter_def maxOutputBytes_def)
  moreover have "buf ?w = take (nat (limit ?w)) []" by (simp add: newLimitedWriter_def)
  ultimately have "buf (fst (io_Copy ?w ws)) = take (nat (limit ?w)) ([] @ concat ws)"
    by (rule io_Copy_buf)
  then show ?thesis by (simp add: capture_eq newLimitedWriter_def)
qed

text \<open>
  Whatever chunks a shell or script subprocess hands to the capped writer on stdout or
  on stderr, the text captured is the first 1048576 bytes of their concatenation (all
  of it when it is shorter), so it is never longer than 1 MiB, and every call of
  \<open>Write\<close> returns a nil error.  The result of the shell backend and of the script
  backend carries exactly this text whenever code is present.
\<close>

lemma output_capped_prefix:
  "capture ws = take 1048576 (concat ws)
   \<and> length (capture ws) \<le> 1048576
   \<and> map snd (snd (WriteAll (newLimitedWriter maxOutputBytes) ws)) = replicate (length ws) None
   \<and> length (Stdout (ExecuteBashWithContext e obs)) \<le> 1048576
   \<and> length (Stderr (ExecuteBashWithContext e obs)) \<le> 1048576
   \<and> length (Stdout (ExecutePythonWithContext e obs)) \<le> 1048576
   \<and> length (Stderr (ExecutePythonWithContext e obs)) \<le> 1048576
   \<and> Stdout (ExecuteBashWithContext (e\<lparr>Code := Some (c # cs)\<rparr>) obs)
       = take 1048576 (concat (stdout_writes obs))
   \<and> Stderr (ExecuteBashWithContext (e\<lparr>Code := Some (c # cs)\<rparr>) obs)
       = take 1048576 (concat (stderr_writes obs))
   \<and> Stdout (ExecutePythonWithContext (e\<lparr>Code := Some (c # cs)\<rparr>) obs)
       = take 1048576 (concat (stdout_writes obs))
   \<and> Stderr (ExecutePythonWithContext (e\<lparr>Code := Some (c # cs)\<rparr>) obs)
       = take 1048576 (concat (stderr_writes obs))"
proof -
  have cap: "\<And>xs. capture xs = take 1048576 (concat xs)"
    by (simp only: capture_eq nat_maxOutputBytes)
  have len: "\<And>xs. length (capture xs) \<le> 1048576"
    by (simp add: cap)
  have b1: "length (Stdout (ExecuteBashWithContext e obs)) \<le> 1048576"
    using len [of "stdout_writes obs"]
    by (simp add: ExecuteBashWithContext_def Let_def split: option.splits)
  have b2: "length (Stderr (ExecuteBashWithContext e obs)) \<le> 1048576"
    using len [of "stderr_writes obs"]
    by (simp add: ExecuteBashWithContext_def Let_def split: option.splits)
  have p1: "length (Stdout (ExecutePythonWithContext e obs)) \<le> 1048576"
    using len [of "stdout_writes obs"]
    by (simp add: ExecutePythonWithContext_def Let_def split: option.splits)
  have p2: "length (Stderr (ExecutePythonWithContext e obs)) \<le> 1048576"
    using len [of "stderr_writes obs"]
    by (simp add: ExecutePythonWithContext_def Let_def split: option.splits)
  have b3: "Stdout (ExecuteBashWithContext (e\<lparr>Code := Some (c # cs)\<rparr>) obs)
              = take 1048576 (concat (stdout_writes obs))"
    by (simp add: ExecuteBashWithContext_def Let_def cap split: option.splits)
  have b4: "Stderr (ExecuteBashWithContext (e\<lparr>Code := Some (c # cs)\<rparr>) obs)
              = take 1048576 (concat (stderr_writes obs))"
    by (simp add: ExecuteBashWithContext_def Let_def cap split: option.splits)
  have p3: "Stdout (ExecutePythonWithContext (e\<lparr>Code := Some (c # cs)\<rparr>) obs)
              = take 1048576 (concat (stdout_writes obs))"
    by (simp add: ExecutePythonWithContext_def Let_def cap split: option.splits)
  have p4: "Stderr (ExecutePythonWithContext (e\<lparr>Code := Some (c # cs)\<rparr>) obs)
              = take 1048576 (concat (stderr_writes obs))"
    by (simp add: ExecutePythonWithContext_def Let_def cap split: option.splits)
  show ?thesis
    using cap [of ws] len [of ws] WriteAll_errors [of "newLimitedWriter maxOutputBytes" ws]
      b1 b2 p1 p2 b3 b4 p3 p4
    by (intro conjI)
qed

text \<open>
  The count that \<open>Write\<close> returns: the length of the chunk when the buffer is full,
  otherwise the number of bytes it kept.
\<close>

lemma Write_count:
  "fst (snd (Write w p)) =
     (if limit w - int (length (buf w)) \<le> 0 then int (length p)
      else min (int (length p)) (limit w - int (length (buf w))))"
  by (auto simp add: Write_def Let_def min_def)

text \<open>
  C4, at a chunk that crosses the cap.  With 1048572 bytes in the buffer, a call of
  \<open>Write\<close> with the six bytes \<^verbatim>\<open>hello\n\<close> keeps four of them and returns the count 4
  with a nil error, where the same call on a full buffer returns the count 6.  The
  copy loop takes the count 4 as a short write: it stops with \<^verbatim>\<open>io.ErrShortWrite\<close>,
  while on chunks that end exactly at the cap it discards what follows and ends with
  nil.  The buffer holds the first 1048576 bytes in both cases.
\<close>

theorem C4_crossing_chunk_is_short_write:
  "Write \<lparr>buf = replicate 1048572 (CHR ''a''), limit = maxOutputBytes\<rparr> ''hello\<newline>''
     = (\<lparr>buf = replicate 1048572 (CHR ''a'') @ ''hell'', limit = maxOutputBytes\<rparr>, 4, None)
   \<and> Write \<lparr>buf = replicate 1048576 (CHR ''a''), limit = maxOutputBytes\<rparr> ''hello\<newline>''
     = (\<lparr>buf = replicate 1048576 (CHR ''a''), limit = maxOutputBytes\<rparr>, 6, None)
   \<and> io_Copy (newLimitedWriter maxOutputBytes)
         [replicate 1048572 (CHR ''a''), ''hello\<newline>'', ''hello\<newline>'']
     = (\<lparr>buf = replicate 1048572 (CHR ''a'') @ ''hell'', limit = maxOutputBytes\<rparr>,
        Some ErrShortWrite)
   \<and> io_Copy (newLimitedWriter maxOutputBytes)
         [replicate 1048576 (CHR ''a''), ''hello\<newline>'', ''hello\<newline>'']
     = (\<lparr>buf = replicate 1048576 (CHR ''a''), limit = maxOutputBytes\<rparr>, None)"
  by (simp add: Write_def maxOutputBytes_def Let_def newLimitedWriter_def)

subsection \<open>Success and exit code\<close>

text \<open>
  C9.  In the result of each of the three backends the success flag is set exactly
  when the exit code is 0.  With code present, a run that returned an error after the
  deadline gives exit code 124, and one whose error is not an exit error (the process
  could not be launched) gives exit code 1; with no code, or empty code, the shell and
  script backends give exit code 1.  None of these results has the success flag set.
\<close>

theorem C9_success_iff_exit_code_zero:
  "Success (ExecuteBashWithContext e obs) = (ExitCode (ExecuteBashWithContext e obs) = 0)
   \<and> Success (ExecutePythonWithContext e obs) = (ExitCode (ExecutePythonWithContext e obs) = 0)
   \<and> Success (ExecuteLLM e obs) = (ExitCode (ExecuteLLM e obs) = 0)
   \<and> Success (ExecuteBash e obs) = (ExitCode (ExecuteBash e obs) = 0)
   \<and> Success (ExecutePython e obs) = (ExitCode (ExecutePython e obs) = 0)
   \<and> (let r = ExecuteBashWithContext (e\<lparr>Code := Some (c # cs)\<rparr>)
                (obs\<lparr>run_err := Some err, deadline_exceeded := True\<rparr>)
       in ExitCode r = 124 \<and> Success r = False)
   \<and> (let r = ExecutePythonWithContext (e\<lparr>Code := Some (c # cs)\<rparr>)
                (obs\<lparr>run_err := Some err, deadline_exceeded := True\<rparr>)
       in ExitCode r = 124 \<and> Success r = False)
   \<and> (let r = ExecuteBashWithContext (e\<lparr>Code := None\<rparr>) obs
       in ExitCode r = 1 \<and> Success r = False)
   \<and> (let r = ExecuteBashWithContext (e\<lparr>Code := Some []\<rparr>) obs
       in ExitCode r = 1 \<and> Success r = False)
   \<and> (let r = ExecutePythonWithContext (e\<lparr>Code := None\<rparr>) obs
       in ExitCode r = 1 \<and> Success r = False)
   \<and> (let r = ExecutePythonWithContext (e\<lparr>Code := Some []\<rparr>) obs
       in ExitCode r = 1 \<and> Success r = False)
   \<and> (let r = ExecuteBashWithContext (e\<lparr>Code := Some (c # cs)\<rparr>)
                (obs\<lparr>run_err := Some (New msg), deadline_exceeded := False\<rparr>)
       in ExitCode r = 1 \<and> Success r = False)
   \<and> (let r = ExecutePythonWithContext (e\<lparr>Code := Some (c # cs)\<rparr>)
                (obs\<lparr>run_err := Some (New msg), deadline_exceeded := False\<rparr>)
       in ExitCode r = 1 \<and> Success r = False)
   \<and> (let r = ExecuteLLM e (obs\<lparr>run_err := Some (New msg)\<rparr>)
       in ExitCode r = 1 \<and> Success r = False)"
proof -
  have bash: "Success (ExecuteBashWithContext e obs) = (ExitCode (ExecuteBashWithContext e obs) = 0)"
    for e obs
    by (simp add: ExecuteBashWithContext_def Let_def split: option.splits)
  have python: "Success (ExecutePythonWithContext e obs) = (ExitCode (ExecutePythonWithContext e obs) = 0)"
    for e obs
    by (simp add: ExecutePythonWithContext_def Let_def split: option.splits)
  have llm: "Success (ExecuteLLM e obs) = (ExitCode (ExecuteLLM e obs) = 0)"
    for e obs
    by (simp add: ExecuteLLM_def Let_def)
  have rest:
    "ExitCode (ExecuteBashWithContext (e\<lparr>Code := Some (c # cs)\<rparr>)
        (obs\<lparr>run_err := Some err, deadline_exceeded := True\<rparr>)) = 124"
    "ExitCode (ExecutePythonWithContext (e\<lparr>Code := Some (c # cs)\<rparr>)
        (obs\<lparr>run_err := Some err, deadline_exceeded := True\<rparr>)) = 124"
    "ExitCode (ExecuteBashWithContext (e\<lparr>Code := None\<rparr>) obs) = 1"
    "ExitCode (ExecuteBashWithContext (e\<lparr>Code := Some []\<rparr>) obs) = 1"
    "ExitCode (ExecutePythonWithContext (e\<lparr>Code := None\<rparr>) obs) = 1"
    "ExitCode (ExecutePythonWithContext (e\<lparr>Code := Some []\<rparr>) obs) = 1"
    "ExitCode (ExecuteBashWithContext (e\<lparr>Code := Some (c # cs)\<rparr>)
        (obs\<lparr>run_err := Some (New msg), deadline_exceeded := False\<rparr>)) = 1"
    "ExitCode (ExecutePythonWithContext (e\<lparr>Code := Some (c # cs)\<rparr>)
        (obs\<lparr>run_err := Some (New msg), deadline_exceeded := False\<rparr>)) = 1"
    "ExitCode (ExecuteLLM e (obs\<lparr>run_err := Some (New msg)\<rparr>)) = 1"
    by (simp_all add: ExecuteBashWithContext_def ExecutePythonWithContext_def ExecuteLLM_def Let_def)
  show ?thesis
    unfolding Let_def ExecuteBash_def ExecutePython_def
    by (simp only: bash python rest llm) simp
qed

subsection \<open>Output extraction\<close>

lemma set_trim_runes: "set (trim_runes encs k s) \<subseteq> set s"
  by (induction encs k s rule: trim_runes.induct) (auto simp: Let_def)

lemma set_TrimSpace: "set (TrimSpace s) \<subseteq> set s"
proof -
  have "set (TrimSpace s) \<subseteq> set (trim_runes space_runes 0 s)"
    using set_trim_runes [of "map rev space_runes" 0 "rev (trim_runes space_runes 0 s)"]
    by (simp add: TrimSpace_def)
  also have "\<dots> \<subseteq> set s" by (rule set_trim_runes)
  finally show ?thesis .
qed

lemma set_slice: "set (slice s a b) \<subseteq> set s"
  unfolding slice_def by (meson set_take_subset set_drop_subset subset_trans)

lemma set_fenced_region: "set (fenced_region s) \<subseteq> set s"
proof -
  have "set (TrimSpace (slice s a b)) \<subseteq> set s" for a b
    using set_TrimSpace [of "slice s a b"] set_slice [of s a b] by (rule subset_trans)
  then show ?thesis
    by (simp add: fenced_region_def Let_def)
qed

lemma Index_absent: "c \<notin> set s \<Longrightarrow> Index s [c] = -1"
  by (induction s) auto

lemma extract_no_brace:
  assumes "CHR ''{'' \<notin> set s"
  shows "ExtractJSONFromOutput um s = Inl (New ''no JSON object found in output'')"
proof -
  have "set (fenced_region (TrimSpace s)) \<subseteq> set s"
    using set_fenced_region set_TrimSpace by (rule subset_trans)
  with assms have "CHR ''{'' \<notin> set (fenced_region (TrimSpace s))" by auto
  then have "Index (fenced_region (TrimSpace s)) ''{'' = -1" by (rule Index_absent)
  then show ?thesis by (simp add: ExtractJSONFromOutput_def Let_def)
qed

lemmas extract_defs = ExtractJSONFromOutput_def fenced_region_def TrimSpace_def
  space_runes_def rune_len_def slice_def slice_from_def Let_def

lemma extract_bare:
  \<open>ExtractJSONFromOutput um ''{"a":1}'' =
     (case um ''{"a":1}'' of
        Inl m \<Rightarrow> Inl (Wrapf ''failed to parse JSON: '' (New m))
      | Inr r \<Rightarrow> Inr r)\<close>
  by (simp add: extract_defs)

lemma extract_fenced:
  \<open>ExtractJSONFromOutput um ''```json\<newline>{"a":1}\<newline>```'' =
     (case um ''{"a":1}'' of
        Inl m \<Rightarrow> Inl (Wrapf ''failed to parse JSON: '' (New m))
      | Inr r \<Rightarrow> Inr r)\<close>
  by (simp add: extract_defs)

lemma unmarshal_a1: \<open>json_Unmarshal ''{"a":1}'' = Inr (Some [(''a'', JNumber ''1'')])\<close>
  by code_simp

text \<open>
  C6.  On the bare text \<^verbatim>\<open>{"a":1}\<close> and on the same object inside a fence tagged
  \<^verbatim>\<open>json\<close>, the extractor hands exactly the text \<^verbatim>\<open>{"a":1}\<close> to the decoder and returns
  what the decoder returns for it; with the decoder for RFC 8259 both results are the
  map with the single member \<^verbatim>\<open>a\<close> of value 1.  On every text that contains no opening
  brace the extractor returns the error "no JSON object found in output", and so no
  map, whatever the decoder is.
\<close>

theorem C6_extract_clean_json:
  \<open>ExtractJSONFromOutput um ''{"a":1}'' =
     (case um ''{"a":1}'' of
        Inl m \<Rightarrow> Inl (Wrapf ''failed to parse JSON: '' (New m))
      | Inr r \<Rightarrow> Inr r)
   \<and> ExtractJSONFromOutput um ''```json\<newline>{"a":1}\<newline>```'' = ExtractJSONFromOutput um ''{"a":1}''
   \<and> ExtractJSONFromOutput json_Unmarshal ''{"a":1}'' = Inr (Some [(''a'', JNumber ''1'')])
   \<and> ExtractJSONFromOutput json_Unmarshal ''```json\<newline>{"a":1}\<newline>```''
       = Inr (Some [(''a'', JNumber ''1'')])
   \<and> (CHR ''{'' \<notin> set s \<longrightarrow>
        ExtractJSONFromOutput um s = Inl (New ''no JSON object found in output''))\<close>
proof -
  have \<open>ExtractJSONFromOutput json_Unmarshal ''{"a":1}'' = Inr (Some [(''a'', JNumber ''1'')])\<close>
    by (simp only: extract_bare unmarshal_a1 sum.case)
  moreover have \<open>ExtractJSONFromOutput json_Unmarshal ''```json\<newline>{"a":1}\<newline>```''
      = Inr (Some [(''a'', JNumber ''1'')])\<close>
    by (simp only: extract_fenced unmarshal_a1 sum.case)
  moreover have \<open>ExtractJSONFromOutput um ''```json\<newline>{"a":1}\<newline>```''
      = ExtractJSONFromOutput um ''{"a":1}''\<close>
    by (simp only: extract_fenced extract_bare)
  ultimately show ?thesis
    using extract_bare [of um] extract_no_brace [of s um] by blast
qed

theorem C6_extract_clean_json_witness:
  \<open>CHR ''{'' \<notin> set ''hello world''
   \<and> ExtractJSONFromOutput json_Unmarshal ''hello world''
       = Inl (New ''no JSON object found in output'')\<close>
  using C6_extract_clean_json [of json_Unmarshal "''hello world''"] by simp

lemma extract_string_brace:
  \<open>ExtractJSONFromOutput um ''{"a":"}"}'' =
     (case um ''{"a":"}'' of
        Inl m \<Rightarrow> Inl (Wrapf ''failed to parse JSON: '' (New m))
      | Inr r \<Rightarrow> Inr r)\<close>
  by (simp add: extract_defs)

lemma unmarshal_string_brace: \<open>json_Unmarshal ''{"a":"}"}'' = Inr (Some [(''a'', JString ''}'')])\<close>
  by code_simp

lemma parse_truncated: \<open>parse_value n ''{"a":"}'' = None\<close>
proof (cases n)
  case 0
  then show ?thesis by simp
next
  case n: (Suc m)
  show ?thesis
  proof (cases m)
    case 0
    with n show ?thesis by (simp add: skip_ws_def is_json_ws_def)
  next
    case m: (Suc k)
    show ?thesis
    proof (cases k)
      case 0
      with n m show ?thesis by (simp add: skip_ws_def is_json_ws_def)
    next
      case (Suc j)
      with n m show ?thesis by (simp add: skip_ws_def is_json_ws_def)
    qed
  qed
qed

text \<open>
  C10.  The text \<^verbatim>\<open>{"a":"}"}\<close> is one well-formed JSON object, whose member \<^verbatim>\<open>a\<close> is the
  string \<^verbatim>\<open>}\<close>.  The brace scan stops at the brace inside the string (index 6, so
  \<^verbatim>\<open>braceEnd\<close> is 7), the extractor hands the truncated text \<^verbatim>\<open>{"a":"}\<close> to the
  decoder, and that text is ill-formed for every bound on the nesting: the extractor
  returns a parse error, not the object.
\<close>

theorem C10_brace_inside_string:
  \<open>json_Unmarshal ''{"a":"}"}'' = Inr (Some [(''a'', JString ''}'')])
   \<and> scan_braces ''{"a":"}"}'' 0 0 = 7
   \<and> ExtractJSONFromOutput um ''{"a":"}"}'' =
       (case um ''{"a":"}'' of
          Inl m \<Rightarrow> Inl (Wrapf ''failed to parse JSON: '' (New m))
        | Inr r \<Rightarrow> Inr r)
   \<and> (\<forall>n. parse_value n ''{"a":"}'' = None)
   \<and> ExtractJSONFromOutput json_Unmarshal ''{"a":"}"}''
       = Inl (Wrapf ''failed to parse JSON: '' (New ''invalid JSON text''))\<close>
proof -
  have \<open>json_Unmarshal ''{"a":"}'' = Inl ''invalid JSON text''\<close>
    by (simp add: json_Unmarshal_def parse_truncated)
  then have \<open>ExtractJSONFromOutput json_Unmarshal ''{"a":"}"}''
       = Inl (Wrapf ''failed to parse JSON: '' (New ''invalid JSON text''))\<close>
    by (simp only: extract_string_brace sum.case)
  moreover have \<open>scan_braces ''{"a":"}"}'' 0 0 = 7\<close>
    by simp
  ultimately show ?thesis
    using unmarshal_string_brace extract_string_brace [of um] parse_truncated by blast
qed

subsection \<open>The entity lifecycle\<close>

lemma executeEntity_unmet:
  assumes "fetch_result obs = Inr er" and "\<not> AllMet (DependenciesStatus er)"
  shows "executeEntity lib params obs =
           ((False, Some (New (''dependencies not met: '' @ fmt_pending (Pending (DependenciesStatus er))))),
            [FetchEntityForExecution (EntityID params)])"
  using assms by (simp add: executeEntity_def)

lemma executeEntity_invalid_input:
  assumes "fetch_result obs = Inr er" and "AllMet (DependenciesStatus er)"
    and "0 < len_map (InputSchema (Entity er))"
    and "ValidateInputs lib (Inputs er) (InputSchema (Entity er)) = Some err"
  shows "executeEntity lib params obs =
           ((False, Some (Wrapf ''input validation failed: '' err)),
            [FetchEntityForExecution (EntityID params)])"
  using assms by (simp add: executeEntity_def)

lemma executeEntity_started:
  assumes "fetch_result obs = Inr er" and "AllMet (DependenciesStatus er)"
    and "len_map (InputSchema (Entity er)) = 0
         \<or> ValidateInputs lib (Inputs er) (InputSchema (Entity er)) = None"
    and "start_result obs = Inr sr"
  shows "executeEntity lib params obs =
     (let c2 = [FetchEntityForExecution (EntityID params),
                StartExecution \<lparr>req_EntityID = EntityID params,
                   req_ExecutionMode = ExecutionMode (Entity er), req_AgentID = AgentID params\<rparr>]
      in if ExecutionMode (Entity er) = ExecutionModeAskUser then ((False, Some ErrAskUserSkipped), c2)
         else case dispatch (Entity er) (process obs) of
                None \<Rightarrow> ((False, Some (New (''unknown execution mode: '' @ ExecutionMode (Entity er)))), c2)
              | Some result \<Rightarrow>
                  let req = completion_request result (exec_ms obs)
                              (fst (output_validation lib (Entity er) result))
                              (snd (output_validation lib (Entity er) result));
                      c3 = c2 @ [CompleteExecution (ExecutionID sr) req]
                  in case complete_result obs of
                       Inl m \<Rightarrow> ((False, Some (Wrapf ''failed to complete execution: '' (New m))), c3)
                     | Inr r \<Rightarrow> ((Success result, None), c3))"
  using assms
  by (auto simp add: executeEntity_def Let_def split: option.splits sum.splits prod.splits)

lemma completion_status:
  "Status (completion_request result ms so ovr) = (if Success result then SUCCESS else FAILED)"
  by (simp add: completion_request_def Let_def)

text \<open>
  C2.  When the entity was fetched and either its dependency summary says that not all
  dependencies are met, or an input schema is present and the resolved inputs fail
  validation against it, \<open>executeEntity\<close> returns \<open>false\<close> with an error that is not
  the skip signal, and the only API call it has made is the fetch: no call of
  \<^verbatim>\<open>StartExecution\<close>, so no run was created.
\<close>

theorem C2_precondition_failure_creates_no_run:
  assumes "fetch_result obs = Inr er"
    and "\<not> AllMet (DependenciesStatus er)
         \<or> (0 < len_map (InputSchema (Entity er))
            \<and> ValidateInputs lib (Inputs er) (InputSchema (Entity er)) \<noteq> None)"
  shows "(\<exists>err. fst (executeEntity lib params obs) = (False, Some err)
            \<and> \<not> Is_ErrAskUserSkipped err)
         \<and> snd (executeEntity lib params obs) = [FetchEntityForExecution (EntityID params)]
         \<and> filter is_StartExecution (snd (executeEntity lib params obs)) = []"
proof (cases "AllMet (DependenciesStatus er)")
  case False
  then show ?thesis
    using executeEntity_unmet [OF assms(1), of lib params] by simp
next
  case True
  with assms(2) obtain err where
    "0 < len_map (InputSchema (Entity er))"
    "ValidateInputs lib (Inputs er) (InputSchema (Entity er)) = Some err"
    by auto
  with True show ?thesis
    using executeEntity_invalid_input [OF assms(1), of lib err params]
    by (auto simp: ValidateInputs_def split: if_splits sum.splits)
qed

theorem C2_precondition_failure_creates_no_run_witness:
  "fetch_result unmet_obs = Inr \<lparr>Entity = bash_entity,
        DependenciesStatus = \<lparr>AllMet = False, Pending = [\<lparr>Label = ''prev'', dep_EntityID = ''t0''\<rparr>]\<rparr>,
        Inputs = None\<rparr>
   \<and> executeEntity accepting_lib \<lparr>EntityID = ''t1'', AgentID = ''a''\<rparr> unmet_obs
       = ((False, Some (New ''dependencies not met: [{prev t0}]'')), [FetchEntityForExecution ''t1''])
   \<and> 0 < len_map (InputSchema (bash_entity\<lparr>InputSchema := schema_a\<rparr>))
   \<and> ValidateInputs rejecting_lib (Some []) schema_a = Some (New ''input validation failed: a is required'')
   \<and> executeEntity rejecting_lib \<lparr>EntityID = ''t1'', AgentID = ''a''\<rparr> bad_input_obs
       = ((False, Some (Wrapf ''input validation failed: '' (New ''input validation failed: a is required''))),
          [FetchEntityForExecution ''t1''])
   \<and> filter is_StartExecution (snd (executeEntity accepting_lib \<lparr>EntityID = ''t1'', AgentID = ''a''\<rparr> unmet_obs)) = []
   \<and> filter is_StartExecution (snd (executeEntity rejecting_lib \<lparr>EntityID = ''t1'', AgentID = ''a''\<rparr> bad_input_obs)) = []"
  using C2_precondition_failure_creates_no_run
          [of unmet_obs "\<lparr>Entity = bash_entity,
             DependenciesStatus = \<lparr>AllMet = False, Pending = [\<lparr>Label = ''prev'', dep_EntityID = ''t0''\<rparr>]\<rparr>,
             Inputs = None\<rparr>" accepting_lib "\<lparr>EntityID = ''t1'', AgentID = ''a''\<rparr>"]
        C2_precondition_failure_creates_no_run
          [of bad_input_obs "\<lparr>Entity = bash_entity\<lparr>InputSchema := schema_a\<rparr>,
             DependenciesStatus = \<lparr>AllMet = True, Pending = []\<rparr>, Inputs = Some []\<rparr>"
             rejecting_lib "\<lparr>EntityID = ''t1'', AgentID = ''a''\<rparr>"]
  by (simp add: unmet_obs_def bad_input_obs_def child_ok_def bash_entity_def schema_a_def
        rejecting_lib_def accepting_lib_def executeEntity_def ValidateInputs_def fmt_pending_def)

text \<open>
  C5.  When the lifecycle reaches the start of an ask-user entity (the entity was
  fetched, its dependencies are met, its inputs pass validation and
  \<^verbatim>\<open>StartExecution\<close> succeeds), \<open>executeEntity\<close> returns \<open>false\<close> with
  \<open>ErrAskUserSkipped\<close>; it has called \<^verbatim>\<open>StartExecution\<close> exactly once, with the mode
  ask-user, and has not called \<^verbatim>\<open>CompleteExecution\<close>, so the run stays as
  \<^verbatim>\<open>StartExecution\<close> created it.
\<close>

theorem C5_ask_user_run_left_running:
  assumes "fetch_result obs = Inr er" and "AllMet (DependenciesStatus er)"
    and "len_map (InputSchema (Entity er)) = 0
         \<or> ValidateInputs lib (Inputs er) (InputSchema (Entity er)) = None"
    and "start_result obs = Inr sr"
    and "ExecutionMode (Entity er) = ExecutionModeAskUser"
  shows "executeEntity lib params obs =
           ((False, Some ErrAskUserSkipped),
            [FetchEntityForExecution (EntityID params),
             StartExecution \<lparr>req_EntityID = EntityID params,
                req_ExecutionMode = ExecutionModeAskUser, req_AgentID = AgentID params\<rparr>])
         \<and> filter is_CompleteExecution (snd (executeEntity lib params obs)) = []
         \<and> length (filter is_StartExecution (snd (executeEntity lib params obs))) = 1"
  using executeEntity_started [OF assms(1-4), of params] assms(5)
  by (simp add: Let_def)

theorem C5_ask_user_run_left_running_witness:
  "start_result ask_user_obs = Inr \<lparr>ExecutionID = ''run'', AttemptNumber = 1, start_Inputs = None\<rparr>
   \<and> executeEntity accepting_lib \<lparr>EntityID = ''t1'', AgentID = ''a''\<rparr> ask_user_obs
       = ((False, Some ErrAskUserSkipped),
          [FetchEntityForExecution ''t1'',
           StartExecution \<lparr>req_EntityID = ''t1'', req_ExecutionMode = ''ASK_USER'', req_AgentID = ''a''\<rparr>])"
  using C5_ask_user_run_left_running
          [of ask_user_obs "\<lparr>Entity = bash_entity\<lparr>ExecutionMode := ExecutionModeAskUser, Code := None\<rparr>,
               DependenciesStatus = \<lparr>AllMet = True, Pending = []\<rparr>, Inputs = None\<rparr>"
              accepting_lib "\<lparr>ExecutionID = ''run'', AttemptNumber = 1, start_Inputs = None\<rparr>"
              "\<lparr>EntityID = ''t1'', AgentID = ''a''\<rparr>"]
  by (simp add: ask_user_obs_def child_ok_def bash_entity_def ExecutionModeAskUser_def)

lemma dispatch_not_ask_user:
  "dispatch e obs = Some r \<Longrightarrow> ExecutionMode e \<noteq> ExecutionModeAskUser"
  by (auto simp: dispatch_def Let_def ExecutionModeAskUser_def ExecutionModeLLMReasoning_def
        ExecutionModeBash_def ExecutionModePython_def ExecutionModePythonSandbox_def
        ExecutionModeHybrid_def split: if_splits)

lemma completion_records_success:
  "Success result \<Longrightarrow>
   ValidationRecords (completion_request result ms so ovr) =
     \<lparr>ValidationType = ''OUTPUT'', Outcome = PASS, Severity = INFO,
       Target = ''execution_completion'',
       Actual = Some [(''exit_code'', IntV (ExitCode result)), (''duration_ms'', IntV ms)],
       vr_FailureReason = None\<rparr> # (case ovr of None \<Rightarrow> [] | Some r \<Rightarrow> [r])"
  by (simp add: completion_request_def)

text \<open>
  C3.  When the lifecycle reaches a backend (the entity was fetched, its dependencies
  are met, its inputs pass validation, \<^verbatim>\<open>StartExecution\<close> succeeded and the mode
  selects a backend), it calls \<^verbatim>\<open>CompleteExecution\<close> once, for the run that was
  started, and the status in the request is \<open>SUCCESS\<close> exactly when the backend's
  result has its success flag set, \<open>FAILED\<close> exactly when it has not; the function
  returns that flag if the call succeeds.  If the backend succeeded, an output schema
  is present and extraction fails, the request carries a second validation record of
  outcome \<open>WARN\<close> (severity \<open>WARNING\<close>) and the status is still \<open>SUCCESS\<close>; if
  extraction succeeds and the extracted map fails validation, the second record has
  outcome \<open>FAIL\<close> (severity \<open>WARNING\<close>) and the status is still \<open>SUCCESS\<close>.
\<close>

theorem C3_status_follows_backend:
  assumes fetch: "fetch_result obs = Inr er"
    and met: "AllMet (DependenciesStatus er)"
    and inp: "len_map (InputSchema (Entity er)) = 0
              \<or> ValidateInputs lib (Inputs er) (InputSchema (Entity er)) = None"
    and started: "start_result obs = Inr sr"
    and disp: "dispatch (Entity er) (process obs) = Some result"
  shows "\<exists>req.
     snd (executeEntity lib params obs) =
       [FetchEntityForExecution (EntityID params),
        StartExecution \<lparr>req_EntityID = EntityID params,
           req_ExecutionMode = ExecutionMode (Entity er), req_AgentID = AgentID params\<rparr>,
        CompleteExecution (ExecutionID sr) req]
     \<and> (Status req = SUCCESS) = Success result
     \<and> (Status req = FAILED) = (\<not> Success result)
     \<and> (isl (complete_result obs) \<or> fst (executeEntity lib params obs) = (Success result, None))
     \<and> ((\<exists>e. Success result \<and> 0 < len_map (OutputSchema (Entity er))
              \<and> ExtractJSONFromOutput (unmarshal lib) (Stdout result) = Inl e)
          \<longrightarrow> Status req = SUCCESS
              \<and> map ValidationType (ValidationRecords req) = [''OUTPUT'', ''OUTPUT_SCHEMA'']
              \<and> map Outcome (ValidationRecords req) = [PASS, WARN]
              \<and> map Severity (ValidationRecords req) = [INFO, WARNING])
     \<and> ((\<exists>m e. Success result \<and> 0 < len_map (OutputSchema (Entity er))
              \<and> ExtractJSONFromOutput (unmarshal lib) (Stdout result) = Inr m
              \<and> ValidateOutputs lib m (OutputSchema (Entity er)) = Some e)
          \<longrightarrow> Status req = SUCCESS
              \<and> map ValidationType (ValidationRecords req) = [''OUTPUT'', ''OUTPUT_SCHEMA'']
              \<and> map Outcome (ValidationRecords req) = [PASS, FAIL]
              \<and> map Severity (ValidationRecords req) = [INFO, WARNING])"
proof -
  let ?ov = "output_validation lib (Entity er) result"
  let ?req = "completion_request result (exec_ms obs) (fst ?ov) (snd ?ov)"
  have mode: "ExecutionMode (Entity er) \<noteq> ExecutionModeAskUser"
    using disp by (rule dispatch_not_ask_user)
  have run: "executeEntity lib params obs =
      (case complete_result obs of
         Inl m \<Rightarrow> ((False, Some (Wrapf ''failed to complete execution: '' (New m))),
                    [FetchEntityForExecution (EntityID params),
                     StartExecution \<lparr>req_EntityID = EntityID params,
                        req_ExecutionMode = ExecutionMode (Entity er), req_AgentID = AgentID params\<rparr>,
                     CompleteExecution (ExecutionID sr) ?req])
       | Inr r \<Rightarrow> ((Success result, None),
                    [FetchEntityForExecution (EntityID params),
                     StartExecution \<lparr>req_EntityID = EntityID params,
                        req_ExecutionMode = ExecutionMode (Entity er), req_AgentID = AgentID params\<rparr>,
                     CompleteExecution (ExecutionID sr) ?req]))"
    using executeEntity_started [OF fetch met inp started, of params] mode disp
    by (simp add: Let_def split: sum.splits)
  have calls: "snd (executeEntity lib params obs) =
       [FetchEntityForExecution (EntityID params),
        StartExecution \<lparr>req_EntityID = EntityID params,
           req_ExecutionMode = ExecutionMode (Entity er), req_AgentID = AgentID params\<rparr>,
        CompleteExecution (ExecutionID sr) ?req]"
    by (simp add: run split: sum.splits)
  have ret: "isl (complete_result obs) \<or> fst (executeEntity lib params obs) = (Success result, None)"
    by (simp add: run split: sum.splits)
  have s1: "(Status ?req = SUCCESS) = Success result"
    and s2: "(Status ?req = FAILED) = (\<not> Success result)"
    by (simp_all add: completion_status)
  have warn: "Status ?req = SUCCESS
              \<and> map ValidationType (ValidationRecords ?req) = [''OUTPUT'', ''OUTPUT_SCHEMA'']
              \<and> map Outcome (ValidationRecords ?req) = [PASS, WARN]
              \<and> map Severity (ValidationRecords ?req) = [INFO, WARNING]"
    if "Success result" "0 < len_map (OutputSchema (Entity er))"
       "ExtractJSONFromOutput (unmarshal lib) (Stdout result) = Inl e" for e
    using that by (simp add: completion_status completion_records_success output_validation_def)
  have fail: "Status ?req = SUCCESS
              \<and> map ValidationType (ValidationRecords ?req) = [''OUTPUT'', ''OUTPUT_SCHEMA'']
              \<and> map Outcome (ValidationRecords ?req) = [PASS, FAIL]
              \<and> map Severity (ValidationRecords ?req) = [INFO, WARNING]"
    if "Success result" "0 < len_map (OutputSchema (Entity er))"
       "ExtractJSONFromOutput (unmarshal lib) (Stdout result) = Inr m"
       "ValidateOutputs lib m (OutputSchema (Entity er)) = Some e" for m e
    using that by (simp add: completion_status completion_records_success output_validation_def)
  show ?thesis
    using calls s1 s2 ret warn fail by blast
qed

lemmas example_defs = no_json_obs_def wrong_json_obs_def child_ok_def bash_entity_def
  schema_a_def schema_entity_def ready_def run_started_def printed_def
  accepting_lib_def rejecting_lib_def

lemma capture_short: "length (concat ws) \<le> 1048576 \<Longrightarrow> capture ws = concat ws"
  by (simp add: capture_eq nat_maxOutputBytes)

theorem C3_status_follows_backend_witness:
  \<open>fetch_result no_json_obs = Inr (ready schema_entity)
   \<and> AllMet (DependenciesStatus (ready schema_entity))
   \<and> len_map (InputSchema (Entity (ready schema_entity))) = 0
   \<and> start_result no_json_obs = Inr run_started
   \<and> dispatch (Entity (ready schema_entity)) (process no_json_obs) = Some (printed ''hello\<newline>'')
   \<and> 0 < len_map (OutputSchema (Entity (ready schema_entity)))
   \<and> ExtractJSONFromOutput (unmarshal accepting_lib) ''hello\<newline>''
       = Inl (New ''no JSON object found in output'')
   \<and> (\<exists>req. snd (executeEntity accepting_lib \<lparr>EntityID = ''t1'', AgentID = ''a''\<rparr> no_json_obs) =
          [FetchEntityForExecution ''t1'',
           StartExecution \<lparr>req_EntityID = ''t1'', req_ExecutionMode = ''BASH'', req_AgentID = ''a''\<rparr>,
           CompleteExecution ''run'' req]
        \<and> Status req = SUCCESS
        \<and> map Outcome (ValidationRecords req) = [PASS, WARN]
        \<and> map Severity (ValidationRecords req) = [INFO, WARNING])
   \<and> fetch_result wrong_json_obs = Inr (ready schema_entity)
   \<and> start_result wrong_json_obs = Inr run_started
   \<and> dispatch (Entity (ready schema_entity)) (process wrong_json_obs) = Some (printed ''{"b":1}'')
   \<and> ExtractJSONFromOutput (unmarshal rejecting_lib) ''{"b":1}'' = Inr (Some [(''b'', JNumber ''1'')])
   \<and> ValidateOutputs rejecting_lib (Some [(''b'', JNumber ''1'')]) schema_a
       = Some (New ''output validation failed: a is required'')
   \<and> (\<exists>req. snd (executeEntity rejecting_lib \<lparr>EntityID = ''t1'', AgentID = ''a''\<rparr> wrong_json_obs) =
          [FetchEntityForExecution ''t1'',
           StartExecution \<lparr>req_EntityID = ''t1'', req_ExecutionMode = ''BASH'', req_AgentID = ''a''\<rparr>,
           CompleteExecution ''run'' req]
        \<and> Status req = SUCCESS
        \<and> map Outcome (ValidationRecords req) = [PASS, FAIL]
        \<and> map Severity (ValidationRecords req) = [INFO, WARNING])\<close>
proof -
  let ?er = "ready schema_entity"
  let ?p = "\<lparr>EntityID = ''t1'', AgentID = ''a''\<rparr>"
  have a1: "fetch_result no_json_obs = Inr ?er" and b1: "fetch_result wrong_json_obs = Inr ?er"
    by (simp_all add: example_defs)
  have a2: "AllMet (DependenciesStatus ?er)"
    by (simp add: example_defs)
  have a3: "len_map (InputSchema (Entity ?er)) = 0"
    by (simp add: example_defs)
  have a4: "start_result no_json_obs = Inr run_started"
    and b4: "start_result wrong_json_obs = Inr run_started"
    by (simp_all add: example_defs)
  have a5: \<open>dispatch (Entity ?er) (process no_json_obs) = Some (printed ''hello\<newline>'')\<close>
    by (simp add: example_defs dispatch_def ExecuteBash_def ExecuteBashWithContext_def
          capture_short ExecutionModeBash_def ExecutionModeLLMReasoning_def)
  have b5: \<open>dispatch (Entity ?er) (process wrong_json_obs) = Some (printed ''{"b":1}'')\<close>
    by (simp add: example_defs dispatch_def ExecuteBash_def ExecuteBashWithContext_def
          capture_short ExecutionModeBash_def ExecutionModeLLMReasoning_def)
  have a6: "0 < len_map (OutputSchema (Entity ?er))"
    by (simp add: example_defs)
  have a7: \<open>ExtractJSONFromOutput (unmarshal accepting_lib) ''hello\<newline>''
       = Inl (New ''no JSON object found in output'')\<close>
    by (rule extract_no_brace) simp
  have b7: \<open>ExtractJSONFromOutput (unmarshal rejecting_lib) ''{"b":1}'' = Inr (Some [(''b'', JNumber ''1'')])\<close>
  proof -
    have \<open>json_Unmarshal ''{"b":1}'' = Inr (Some [(''b'', JNumber ''1'')])\<close> by code_simp
    then show ?thesis by (simp add: extract_defs rejecting_lib_def)
  qed
  have b8: "ValidateOutputs rejecting_lib (Some [(''b'', JNumber ''1'')]) schema_a
       = Some (New ''output validation failed: a is required'')"
    by (simp add: ValidateOutputs_def example_defs)
  have a9: "Success (printed out)" "Stdout (printed out) = out" for out
    by (simp_all add: printed_def)
  have mode: "ExecutionMode (Entity ?er) = ''BASH''"
    by (simp add: example_defs ExecutionModeBash_def)
  note A = C3_status_follows_backend [OF a1 a2 disjI1 [OF a3] a4 a5, of accepting_lib ?p]
  note B = C3_status_follows_backend [OF b1 a2 disjI1 [OF a3] b4 b5, of rejecting_lib ?p]
  have wa: \<open>\<exists>req. snd (executeEntity accepting_lib ?p no_json_obs) =
          [FetchEntityForExecution ''t1'',
           StartExecution \<lparr>req_EntityID = ''t1'', req_ExecutionMode = ''BASH'', req_AgentID = ''a''\<rparr>,
           CompleteExecution ''run'' req]
        \<and> Status req = SUCCESS
        \<and> map Outcome (ValidationRecords req) = [PASS, WARN]
        \<and> map Severity (ValidationRecords req) = [INFO, WARNING]\<close>
    using A a6 a7 a9 mode by (auto simp: run_started_def)
  have wb: \<open>\<exists>req. snd (executeEntity rejecting_lib ?p wrong_json_obs) =
          [FetchEntityForExecution ''t1'',
           StartExecution \<lparr>req_EntityID = ''t1'', req_ExecutionMode = ''BASH'', req_AgentID = ''a''\<rparr>,
           CompleteExecution ''run'' req]
        \<and> Status req = SUCCESS
        \<and> map Outcome (ValidationRecords req) = [PASS, FAIL]
        \<and> map Severity (ValidationRecords req) = [INFO, WARNING]\<close>
  proof -
    have os: "OutputSchema (Entity ?er) = schema_a" by (simp add: example_defs)
    have pre: \<open>\<exists>m e. Success (printed ''{"b":1}'') \<and> 0 < len_map (OutputSchema (Entity ?er))
              \<and> ExtractJSONFromOutput (unmarshal rejecting_lib) (Stdout (printed ''{"b":1}'')) = Inr m
              \<and> ValidateOutputs rejecting_lib m (OutputSchema (Entity ?er)) = Some e\<close>
      using a6 a9 b7 b8 os by auto
    show ?thesis
      using B pre mode by (auto simp: run_started_def)
  qed
  show ?thesis
    using a1 a2 a3 a4 a5 a6 a7 wa b1 b4 b5 b7 b8 wb by (intro conjI)
qed

subsection \<open>The Process driver\<close>

lemma executeEntity_no_fetch_next:
  "filter is_FetchNextTaskForProcess (snd (executeEntity lib params obs)) = []"
  by (simp add: executeEntity_def Let_def split: sum.splits option.splits prod.splits)

lemma record_outcome_calls [simp]: "calls (record_outcome r st) = calls st"
  by (cases r) (simp add: record_outcome_def)

lemma record_outcome_interrupted [simp]: "interrupted (record_outcome r st) = interrupted st"
  by (cases r) (simp add: record_outcome_def)

lemma process_loop_cancelled:
  assumes "list_all pulls_task pre" and "ctx_done it"
  shows "\<exists>st'. process_loop lib a p (pre @ it # rest) st = Some st'
           \<and> interrupted st' \<and> lastError st' = Some Canceled
           \<and> length (filter is_FetchNextTaskForProcess (calls st'))
               = length (filter is_FetchNextTaskForProcess (calls st)) + length pre"
  using assms(1)
proof (induction pre arbitrary: st)
  case Nil
  with assms(2) show ?case by simp
next
  case (Cons x pre)
  from Cons.prems have px: "pulls_task x" and pre: "list_all pulls_task pre"
    by simp_all
  from px have x: "\<not> ctx_done x"
    by (simp add: pulls_task_def)
  from px obtain r task where r: "next_result x = Inr r" "Task r = Some task"
    by (auto simp: pulls_task_def split: sum.splits)
  let ?e = "executeEntity lib \<lparr>EntityID = task_ID task, AgentID = a\<rparr> (entity_run x)"
  let ?st = "record_outcome (fst ?e)
               (st\<lparr>calls := (calls st @ [FetchNextTaskForProcess a p]) @ snd ?e\<rparr>)"
  have step: "process_loop lib a p ((x # pre) @ it # rest) st
                = process_loop lib a p (pre @ it # rest) ?st"
    using x r by (simp add: Let_def split: prod.splits)
  from Cons.IH [OF pre, of ?st] obtain st' where
    "process_loop lib a p (pre @ it # rest) ?st = Some st'"
    "interrupted st'" "lastError st' = Some Canceled"
    "length (filter is_FetchNextTaskForProcess (calls st'))
       = length (filter is_FetchNextTaskForProcess (calls ?st)) + length pre"
    by blast
  then show ?case
    using step by (simp add: executeEntity_no_fetch_next)
qed

text \<open>
  C7.  Let the Process run have been started, and let the loop see the cancellation at
  the top of a turn, after any number of turns in which it pulled and ran a task.
  Then \<open>runProcessExecution\<close> returns, its last call completes the Process run with
  status \<open>ABANDONED\<close> (not \<open>FAILED\<close>, whatever errors the earlier turns recorded), the
  metric \<^verbatim>\<open>interrupted\<close> is true, and it has fetched a next task once for each earlier
  turn and not again: the observations that follow the cancellation are never read.
\<close>

theorem C7_cancelled_process_run_abandoned:
  assumes "process_start_result obs = Inr sr"
    and "iterations obs = pre @ it # rest"
    and "list_all pulls_task pre"
    and "ctx_done it"
  shows "\<exists>ret cs req n.
           runProcessExecution lib a p obs = Some (ret, cs @ [CompleteExecution (ExecutionID sr) req])
           \<and> Status req = ABANDONED
           \<and> Status req \<noteq> FAILED
           \<and> Outputs req = Some \<lparr>Metrics = Some [(''tasks_executed'', IntV n), (''interrupted'', BoolV True)],
                                  out_Stdout = [], out_Stderr = [], Structured = None\<rparr>
           \<and> FailureReason req = Some ''Process execution interrupted by signal''
           \<and> length (filter is_FetchNextTaskForProcess cs) = length pre"
proof -
  let ?st0 = "\<lparr>tasksExecuted = 0, lastError = None, interrupted = False,
               calls = [StartExecution \<lparr>req_EntityID = p, req_ExecutionMode = ''PROCESS'',
                                        req_AgentID = a\<rparr>]\<rparr>"
  from process_loop_cancelled [OF assms(3,4), of lib a p rest ?st0] obtain st' where st':
    "process_loop lib a p (pre @ it # rest) ?st0 = Some st'"
    "interrupted st'"
    "length (filter is_FetchNextTaskForProcess (calls st')) = length pre"
    by auto
  let ?req = "process_completion st'"
  have req: "Status ?req = ABANDONED"
    "Outputs ?req = Some \<lparr>Metrics = Some [(''tasks_executed'', IntV (tasksExecuted st')),
                                            (''interrupted'', BoolV True)],
                           out_Stdout = [], out_Stderr = [], Structured = None\<rparr>"
    "FailureReason ?req = Some ''Process execution interrupted by signal''"
    using st'(2) by (simp_all add: process_completion_def Let_def)
  have "\<exists>ret. runProcessExecution lib a p obs
          = Some (ret, calls st' @ [CompleteExecution (ExecutionID sr) ?req])"
    using assms(1,2) st'(1,2)
    by (simp add: runProcessExecution_def Let_def split: sum.splits)
  with req st'(3) show ?thesis by force
qed

theorem C7_cancelled_process_run_abandoned_witness:
  "process_start_result cancelled_run = Inr process_started
   \<and> iterations cancelled_run = [turn ''t1'' child_unreported] @ cancel_turn # [turn ''t3'' child_ok, last_turn]
   \<and> list_all pulls_task [turn ''t1'' child_unreported]
   \<and> ctx_done cancel_turn
   \<and> (\<exists>ret cs req n.
         runProcessExecution accepting_lib ''a'' ''p'' cancelled_run
           = Some (ret, cs @ [CompleteExecution ''prun'' req])
         \<and> Status req = ABANDONED
         \<and> Outputs req = Some \<lparr>Metrics = Some [(''tasks_executed'', IntV n), (''interrupted'', BoolV True)],
                                out_Stdout = [], out_Stderr = [], Structured = None\<rparr>
         \<and> FailureReason req = Some ''Process execution interrupted by signal''
         \<and> length (filter is_FetchNextTaskForProcess cs) = 1)"
proof -
  have h1: "process_start_result cancelled_run = Inr process_started"
    by (simp add: cancelled_run_def three_children_def process_started_def)
  have h2: "iterations cancelled_run
              = [turn ''t1'' child_unreported] @ cancel_turn # [turn ''t3'' child_ok, last_turn]"
    by (simp add: cancelled_run_def)
  have h3: "list_all pulls_task [turn ''t1'' child_unreported]"
    by (simp add: pulls_task_def turn_def)
  have h4: "ctx_done cancel_turn"
    by (simp add: cancel_turn_def)
  have id: "ExecutionID process_started = ''prun''"
    by (simp add: process_started_def)
  show ?thesis
    using C7_cancelled_process_run_abandoned [OF h1 h2 h3 h4, of accepting_lib "''a''" "''p''"]
      h1 h2 h3 h4
    by (simp add: id) blast
qed

subsection \<open>Resumption at start-up\<close>

lemma visit_running_snd:
  assumes "activeResumes s = snd ` set (running s)" and "distinct (map snd (running s))"
  shows "activeResumes (visit orch r s) = snd ` set (running (visit orch r s))
         \<and> distinct (map snd (running (visit orch r s)))"
  using assms by (auto simp: visit_def Let_def)

lemma return_running_snd:
  assumes "activeResumes s = snd ` set (running s)" and "distinct (map snd (running s))"
    and "(e, rid) \<in> set (running s)"
  shows "activeResumes (goroutine_return e rid s) = snd ` set (running (goroutine_return e rid s))
         \<and> distinct (map snd (running (goroutine_return e rid s)))
         \<and> rid \<notin> activeResumes (goroutine_return e rid s)"
proof -
  from assms(2) have d: "distinct (running s)" and inj: "inj_on snd (set (running s))"
    by (simp_all add: distinct_map)
  have set_eq: "set (remove1 (e, rid) (running s)) = set (running s) - {(e, rid)}"
    using d by simp
  have others: "snd x \<noteq> rid" if "x \<in> set (remove1 (e, rid) (running s))" for x
  proof
    assume eq: "snd x = rid"
    from that set_eq have x: "x \<in> set (running s)" "x \<noteq> (e, rid)" by auto
    have sx: "snd x = snd (e, rid)" using eq by simp
    have "x = (e, rid)" by (rule inj_onD [OF inj sx x(1) assms(3)])
    with x(2) show False by simp
  qed
  have img: "snd ` set (remove1 (e, rid) (running s)) = snd ` set (running s) - {rid}"
  proof
    show "snd ` set (remove1 (e, rid) (running s)) \<subseteq> snd ` set (running s) - {rid}"
      using others set_eq by auto
    show "snd ` set (running s) - {rid} \<subseteq> snd ` set (remove1 (e, rid) (running s))"
      using set_eq by force
  qed
  have "inj_on snd (set (remove1 (e, rid) (running s)))"
    using inj set_eq by (auto intro: inj_on_subset)
  with d have "distinct (map snd (remove1 (e, rid) (running s)))"
    by (simp add: distinct_map)
  with img show ?thesis
    using assms(1) by (simp add: goroutine_return_def)
qed

lemma reachable_invariant:
  assumes "reachable orch runs c"
  shows "activeResumes (fst c) = snd ` set (running (fst c)) \<and> distinct (map snd (running (fst c)))"
  using assms
proof (induction rule: reachable.induct)
  case start
  show ?case by simp
next
  case (loop_turn s r rs)
  then show ?case using visit_running_snd [of s orch r] by simp
next
  case (return s rs e rid)
  then show ?case using return_running_snd [of s e rid] by simp
qed

lemma filter_key_le_1:
  "distinct (map f xs) \<Longrightarrow> length (filter (\<lambda>x. f x = a) xs) \<le> 1"
proof (induction xs)
  case Nil
  show ?case by simp
next
  case (Cons x xs)
  show ?case
  proof (cases "f x = a")
    case True
    with Cons.prems have "a \<notin> f ` set xs" by simp
    then have "\<forall>y \<in> set xs. f y \<noteq> a" by blast
    then have "filter (\<lambda>x. f x = a) xs = []" by (simp add: filter_empty_conv)
    with True show ?thesis by simp
  next
    case False
    with Cons show ?thesis by simp
  qed
qed

text \<open>
  C8.  In every state that the start-up loop and the goroutines can reach, whatever
  the interleaving, at most one goroutine is resuming a given run identifier, and the
  keys of \<^verbatim>\<open>activeResumes\<close> are exactly the identifiers being resumed.  A turn of the
  loop for an identifier that is being resumed launches nothing, and the return of a
  goroutine removes its identifier from \<^verbatim>\<open>activeResumes\<close>.  A turn of the loop, with its
  \<^verbatim>\<open>LoadOrStore\<close>, and the deferred \<^verbatim>\<open>Delete\<close> are taken as atomic steps.
\<close>

theorem C8_resume_once_per_run:
  assumes "reachable orch runs (s, rs)"
  shows "length (filter (\<lambda>g. snd g = rid) (running s)) \<le> 1
         \<and> distinct (map snd (running s))
         \<and> activeResumes s = snd ` set (running s)
         \<and> (\<forall>r. RunID r \<in> snd ` set (running s) \<longrightarrow>
               running (visit orch r s) = running s \<and> launched (visit orch r s) = launched s)
         \<and> (\<forall>e r. (e, r) \<in> set (running s) \<longrightarrow>
               r \<notin> activeResumes (goroutine_return e r s)
               \<and> r \<notin> snd ` set (running (goroutine_return e r s)))"
proof -
  from reachable_invariant [OF assms]
  have act: "activeResumes s = snd ` set (running s)" and d: "distinct (map snd (running s))"
    by simp_all
  have once: "length (filter (\<lambda>g. snd g = rid) (running s)) \<le> 1"
    using d by (rule filter_key_le_1)
  have skip: "running (visit orch r s) = running s \<and> launched (visit orch r s) = launched s"
    if "RunID r \<in> snd ` set (running s)" for r
    using that act by (simp add: visit_def Let_def)
  have gone: "r \<notin> activeResumes (goroutine_return e r s)
              \<and> r \<notin> snd ` set (running (goroutine_return e r s))"
    if "(e, r) \<in> set (running s)" for e r
    using return_running_snd [OF act d that] by metis
  show ?thesis
    using once d act skip gone by blast
qed

theorem C8_resume_once_per_run_witness:
  "reachable ''ORCHESTRATE'' [orchestrate_run, orchestrate_run, leaf_run] (one_resuming, [leaf_run])
   \<and> length (filter (\<lambda>g. snd g = ''r1'') (running one_resuming)) \<le> 1
   \<and> RunID orchestrate_run \<in> snd ` set (running one_resuming)
   \<and> launched (visit ''ORCHESTRATE'' orchestrate_run one_resuming) = [(''e1'', ''r1'')]
   \<and> (''e1'', ''r1'') \<in> set (running one_resuming)
   \<and> ''r1'' \<notin> activeResumes (goroutine_return ''e1'' ''r1'' one_resuming)"
proof -
  let ?runs = "[orchestrate_run, orchestrate_run, leaf_run]"
  let ?s0 = "\<lparr>activeResumes = {}, running = [], launched = []\<rparr>"
  have v1: "visit ''ORCHESTRATE'' orchestrate_run ?s0 = one_resuming"
    by (simp add: visit_def orchestrate_run_def one_resuming_def Let_def)
  have v2: "visit ''ORCHESTRATE'' orchestrate_run one_resuming = one_resuming"
    by (simp add: visit_def orchestrate_run_def one_resuming_def Let_def)
  have "reachable ''ORCHESTRATE'' ?runs (?s0, ?runs)"
    by (rule reachable.start)
  then have "reachable ''ORCHESTRATE'' ?runs (visit ''ORCHESTRATE'' orchestrate_run ?s0, [orchestrate_run, leaf_run])"
    by (rule reachable.loop_turn)
  then have "reachable ''ORCHESTRATE'' ?runs (one_resuming, [orchestrate_run, leaf_run])"
    by (simp only: v1)
  then have "reachable ''ORCHESTRATE'' ?runs (visit ''ORCHESTRATE'' orchestrate_run one_resuming, [leaf_run])"
    by (rule reachable.loop_turn)
  then have r: "reachable ''ORCHESTRATE'' ?runs (one_resuming, [leaf_run])"
    by (simp only: v2)
  have m: "RunID orchestrate_run \<in> snd ` set (running one_resuming)"
    "(''e1'', ''r1'') \<in> set (running one_resuming)"
    by (simp_all add: orchestrate_run_def one_resuming_def)
  have l: "launched one_resuming = [(''e1'', ''r1'')]"
    by (simp add: one_resuming_def)
  show ?thesis
    using C8_resume_once_per_run [OF r, of "''r1''"] r m l by auto
qed

subsection \<open>The Process driver when no task remains\<close>

text \<open>
  When the server answers that no task remains, after any number of turns in which a
  task was pulled and run, the driver has run one lifecycle for each of these turns,
  \<^verbatim>\<open>tasks_executed\<close> is the number of lifecycles that returned \<open>true\<close>, and the status
  of the Process run is \<open>FAILED\<close> exactly when some lifecycle returned an error other
  than the skip signal.
\<close>

lemma executeEntity_one_fetch:
  "length (filter is_FetchEntityForExecution (snd (executeEntity lib params obs))) = 1"
  by (simp add: executeEntity_def Let_def split: sum.splits option.splits prod.splits)

lemma executeEntity_true_no_error:
  "fst (executeEntity lib params obs) = (True, e) \<Longrightarrow> e = None"
  by (auto simp add: executeEntity_def Let_def split: sum.splits option.splits prod.splits if_splits)

lemma record_outcome_tasksExecuted:
  "tasksExecuted (record_outcome r st) =
     tasksExecuted st + (if fst r \<and> \<not> child_error r then 1 else 0)"
  by (cases r) (auto simp: record_outcome_def child_error_def split: option.splits)

lemma record_outcome_lastError:
  "(lastError (record_outcome r st) = None) = (lastError st = None \<and> \<not> child_error r)"
  by (cases r) (auto simp: record_outcome_def child_error_def split: option.splits)

lemma process_loop_exhausted:
  assumes "list_all pulls_task pre"
    and "\<not> ctx_done it" and "next_result it = Inr r" and "Task r = None"
  shows "\<exists>st'. process_loop lib a p (pre @ it # rest) st = Some st'
           \<and> interrupted st' = interrupted st
           \<and> tasksExecuted st' = tasksExecuted st
               + int (length (filter (\<lambda>x. fst (child_outcome lib a x) \<and> \<not> child_error (child_outcome lib a x)) pre))
           \<and> (lastError st' = None)
               = (lastError st = None \<and> list_all (\<lambda>x. \<not> child_error (child_outcome lib a x)) pre)
           \<and> length (filter is_FetchEntityForExecution (calls st'))
               = length (filter is_FetchEntityForExecution (calls st)) + length pre"
  using assms(1)
proof (induction pre arbitrary: st)
  case Nil
  with assms(2-4) show ?case by simp
next
  case (Cons x pre)
  from Cons.prems have px: "pulls_task x" and pre: "list_all pulls_task pre"
    by simp_all
  from px have x: "\<not> ctx_done x"
    by (simp add: pulls_task_def)
  from px obtain rx task where rx: "next_result x = Inr rx" "Task rx = Some task"
    by (auto simp: pulls_task_def split: sum.splits)
  let ?e = "executeEntity lib \<lparr>EntityID = task_ID task, AgentID = a\<rparr> (entity_run x)"
  let ?st = "record_outcome (fst ?e)
               (st\<lparr>calls := (calls st @ [FetchNextTaskForProcess a p]) @ snd ?e\<rparr>)"
  have out: "child_outcome lib a x = fst ?e"
    using rx by (simp add: child_outcome_def)
  have step: "process_loop lib a p ((x # pre) @ it # rest) st
                = process_loop lib a p (pre @ it # rest) ?st"
    using x rx by (simp add: Let_def split: prod.splits)
  have fx: "filter (\<lambda>x. fst (child_outcome lib a x) \<and> \<not> child_error (child_outcome lib a x)) (x # pre)
        = (if fst (fst ?e) \<and> \<not> child_error (fst ?e) then [x] else [])
          @ filter (\<lambda>x. fst (child_outcome lib a x) \<and> \<not> child_error (child_outcome lib a x)) pre"
    using out by simp
  from Cons.IH [OF pre, of ?st] show ?case
    unfolding step fx
    by (auto simp add: out record_outcome_tasksExecuted record_outcome_lastError
          executeEntity_one_fetch)
qed

lemma process_run_exhausted:
  assumes "process_start_result obs = Inr sr"
    and "iterations obs = pre @ it # rest"
    and "list_all pulls_task pre"
    and "\<not> ctx_done it" and "next_result it = Inr r" and "Task r = None"
  shows "\<exists>ret cs req.
           runProcessExecution lib a p obs = Some (ret, cs @ [CompleteExecution (ExecutionID sr) req])
           \<and> Status req =
               (if list_all (\<lambda>x. \<not> child_error (child_outcome lib a x)) pre then SUCCESS else FAILED)
           \<and> Outputs req =
               Some \<lparr>Metrics = Some [(''tasks_executed'',
                        IntV (int (length (filter (\<lambda>x. fst (child_outcome lib a x)
                                \<and> \<not> child_error (child_outcome lib a x)) pre)))),
                       (''interrupted'', BoolV False)],
                     out_Stdout = [], out_Stderr = [], Structured = None\<rparr>
           \<and> length (filter is_FetchEntityForExecution cs) = length pre"
proof -
  let ?st0 = "\<lparr>tasksExecuted = 0, lastError = None, interrupted = False,
               calls = [StartExecution \<lparr>req_EntityID = p, req_ExecutionMode = ''PROCESS'',
                                        req_AgentID = a\<rparr>]\<rparr>"
  from process_loop_exhausted [OF assms(3-6), of lib a p rest ?st0] obtain st' where st':
    "process_loop lib a p (pre @ it # rest) ?st0 = Some st'"
    "\<not> interrupted st'"
    "tasksExecuted st' = int (length (filter (\<lambda>x. fst (child_outcome lib a x)
                                \<and> \<not> child_error (child_outcome lib a x)) pre))"
    "(lastError st' = None) = list_all (\<lambda>x. \<not> child_error (child_outcome lib a x)) pre"
    "length (filter is_FetchEntityForExecution (calls st')) = length pre"
    by auto
  let ?req = "process_completion st'"
  have req: "Status ?req =
               (if list_all (\<lambda>x. \<not> child_error (child_outcome lib a x)) pre then SUCCESS else FAILED)"
    "Outputs ?req =
               Some \<lparr>Metrics = Some [(''tasks_executed'',
                        IntV (int (length (filter (\<lambda>x. fst (child_outcome lib a x)
                                \<and> \<not> child_error (child_outcome lib a x)) pre)))),
                       (''interrupted'', BoolV False)],
                     out_Stdout = [], out_Stderr = [], Structured = None\<rparr>"
    using st'(2,3,4) by (auto simp add: process_completion_def Let_def)
  have "\<exists>ret. runProcessExecution lib a p obs
          = Some (ret, calls st' @ [CompleteExecution (ExecutionID sr) ?req])"
    using assms(1,2) st'(1)
    by (simp add: runProcessExecution_def Let_def split: sum.splits)
  with req st'(5) show ?thesis by blast
qed

text \<open>A child that exits with a nonzero status is not an error for the driver.\<close>

lemma nonzero_exit_no_child_error:
  assumes "fetch_result obs = Inr er" and "AllMet (DependenciesStatus er)"
    and "len_map (InputSchema (Entity er)) = 0
         \<or> ValidateInputs lib (Inputs er) (InputSchema (Entity er)) = None"
    and "start_result obs = Inr sr"
    and "dispatch (Entity er) (process obs) = Some result"
    and "\<not> Success result"
    and "complete_result obs = Inr cr"
  shows "fst (executeEntity lib params obs) = (False, None)"
  using executeEntity_started [OF assms(1-4), of params] assms(5-7)
    dispatch_not_ask_user [OF assms(5)]
  by (simp add: Let_def)

lemmas run_defs = runProcessExecution_def three_children_def Let_def turn_def last_turn_def
       child_ok_def child_exit_1_def bash_entity_def accepting_lib_def executeEntity_def
       record_outcome_def dispatch_def ExecuteBash_def ExecuteBashWithContext_def capture_short
       ExecutionModeBash_def ExecutionModeLLMReasoning_def ExecutionModeAskUser_def
       output_validation_def completion_request_def process_completion_def Itoa_def
       final_request_def completed_statuses_def List.map_filter_simps

text \<open>
  C1, at the scenario it names.  A Process with three children, of which the second
  exits with status 1 and the others succeed: the driver runs all three, the child
  runs are completed with \<open>SUCCESS\<close>, \<open>FAILED\<close>, \<open>SUCCESS\<close>, the metric
  \<^verbatim>\<open>tasks_executed\<close> is 2, but the Process run is completed with status \<open>SUCCESS\<close> and
  no failure reason, and the function returns nil: \<open>executeEntity\<close> returns
  \<open>(false, nil)\<close> for the second child, which the driver neither counts nor records.
\<close>

theorem C1_nonzero_exit_child_leaves_process_success:
  "map_option fst (runProcessExecution accepting_lib ''a'' ''p'' three_children) = Some None
   \<and> final_request (runProcessExecution accepting_lib ''a'' ''p'' three_children)
       = Some \<lparr>Status = SUCCESS,
               Outputs = Some \<lparr>Metrics = Some [(''tasks_executed'', IntV 2), (''interrupted'', BoolV False)],
                               out_Stdout = [], out_Stderr = [], Structured = None\<rparr>,
               FailureReason = None,
               ValidationRecords = []\<rparr>
   \<and> map_option (filter is_FetchEntityForExecution \<circ> snd)
         (runProcessExecution accepting_lib ''a'' ''p'' three_children)
       = Some [FetchEntityForExecution ''t1'', FetchEntityForExecution ''t2'', FetchEntityForExecution ''t3'']
   \<and> map_option (completed_statuses \<circ> snd)
         (runProcessExecution accepting_lib ''a'' ''p'' three_children)
       = Some [SUCCESS, FAILED, SUCCESS, SUCCESS]
   \<and> fst (executeEntity accepting_lib \<lparr>EntityID = ''t2'', AgentID = ''a''\<rparr> child_exit_1) = (False, None)"
  by (simp add: run_defs)

text \<open>
  When the second child ends in an error of the lifecycle itself (here the completion
  call fails), the same driver does complete the Process run with \<open>FAILED\<close> and the
  text of that error.
\<close>

lemma infrastructure_error_fails_process:
  "final_request (runProcessExecution accepting_lib ''a'' ''p'' infrastructure_failure)
     = Some \<lparr>Status = FAILED,
             Outputs = Some \<lparr>Metrics = Some [(''tasks_executed'', IntV 2), (''interrupted'', BoolV False)],
                             out_Stdout = [], out_Stderr = [], Structured = None\<rparr>,
             FailureReason = Some ''failed to complete execution: 503 Service Unavailable'',
             ValidationRecords = []\<rparr>"
  by (simp add: run_defs infrastructure_failure_def child_unreported_def)

end
